theory Spec2Isabelle
  imports Main "HOL-Library.Char_ord" "HOL-Library.List_Lexorder" "HOL-Library.AList"
begin

section \<open>Python strings\<close>

text \<open>
  A Python string is the list of the bytes of its UTF-8 encoding. Splitting at an ASCII
  separator, comparing, sorting and cutting a suffix give the same result on the bytes
  as on the code points. Case conversion does not: \<^verbatim>\<open>str.upper\<close> and \<^verbatim>\<open>str.lower\<close>
  follow the Unicode character database. On a string of ASCII characters they are the
  maps below; on any other string they are what the record \<open>unicode\<close> says, which
  every function that converts case takes as its first argument.
\<close>

definition ascii_lowercase :: string where
  "ascii_lowercase = ''abcdefghijklmnopqrstuvwxyz''"

definition ascii_uppercase :: string where
  "ascii_uppercase = ''ABCDEFGHIJKLMNOPQRSTUVWXYZ''"

text \<open>The character class \<^verbatim>\<open>[a-zA-Z]\<close> of the regular expression.\<close>

definition is_ascii_letter :: "char \<Rightarrow> bool" where
  "is_ascii_letter c = (c \<in> set (ascii_lowercase @ ascii_uppercase))"

text \<open>\<^verbatim>\<open>str.upper\<close> and \<^verbatim>\<open>str.lower\<close> on one ASCII character.\<close>

definition upper_char :: "char \<Rightarrow> char" where
  "upper_char c = (case map_of (zip ascii_lowercase ascii_uppercase) c of Some u \<Rightarrow> u | None \<Rightarrow> c)"

definition lower_char :: "char \<Rightarrow> char" where
  "lower_char c = (case map_of (zip ascii_uppercase ascii_lowercase) c of Some l \<Rightarrow> l | None \<Rightarrow> c)"

definition is_ascii :: "char \<Rightarrow> bool" where
  "is_ascii c = (\<not> digit7 c)"

record unicode =
  uc_upper :: "string \<Rightarrow> string"
  uc_lower :: "string \<Rightarrow> string"

text \<open>\<^verbatim>\<open>s.upper()\<close> and \<^verbatim>\<open>s.lower()\<close>\<close>

definition str_upper :: "unicode \<Rightarrow> string \<Rightarrow> string" where
  "str_upper u s = (if list_all is_ascii s then map upper_char s else uc_upper u s)"

definition str_lower :: "unicode \<Rightarrow> string \<Rightarrow> string" where
  "str_lower u s = (if list_all is_ascii s then map lower_char s else uc_lower u s)"

text \<open>
  \<^verbatim>\<open>(s[:1], s[1:])\<close>: the first code point and the rest. A code point that is not
  ASCII is a lead byte followed by its continuation bytes (\<^verbatim>\<open>10xxxxxx\<close>).
\<close>

definition is_continuation :: "char \<Rightarrow> bool" where
  "is_continuation c = (digit7 c \<and> \<not> digit6 c)"

fun split_first :: "string \<Rightarrow> string \<times> string" where
  "split_first [] = ([], [])"
| "split_first (c # cs) =
     (if is_ascii c then ([c], cs)
      else (c # takeWhile is_continuation cs, dropWhile is_continuation cs))"

text \<open>\<^verbatim>\<open>s.split(sep)\<close> for a one-character separator: never an empty list.\<close>

fun split_on :: "char \<Rightarrow> string \<Rightarrow> string list" where
  "split_on sep [] = [[]]"
| "split_on sep (c # cs) =
     (if c = sep then [] # split_on sep cs
      else (case split_on sep cs of [] \<Rightarrow> [[c]] | w # ws \<Rightarrow> (c # w) # ws))"

text \<open>\<^verbatim>\<open>sep.join(xs)\<close>.\<close>

fun join :: "string \<Rightarrow> string list \<Rightarrow> string" where
  "join sep [] = []"
| "join sep [x] = x"
| "join sep (x # y # ys) = x @ sep @ join sep (y # ys)"

text \<open>\<^verbatim>\<open>s.removesuffix(suf)\<close>.\<close>

definition removesuffix :: "string \<Rightarrow> string \<Rightarrow> string" where
  "removesuffix suf s =
     (if length suf \<le> length s \<and> drop (length s - length suf) s = suf
      then take (length s - length suf) s else s)"

section \<open>Class names: camelify\<close>

text \<open>
  \<^verbatim>\<open>camel_re = re.compile(r"[_\-]([a-zA-Z])")\<close>: a separator followed by an ASCII letter.
\<close>

definition is_sep :: "char \<Rightarrow> bool" where
  "is_sep c = (c = CHR ''_'' \<or> c = CHR ''-'')"

text \<open>
  \<^verbatim>\<open>camel_re.sub(lambda m: m.group(1).upper(), name)\<close>: the scan goes left to right,
  a match takes two characters and is replaced by the upper-cased letter, a character
  that starts no match is copied.
\<close>

fun camel_sub :: "string \<Rightarrow> string" where
  "camel_sub [] = []"
| "camel_sub [c] = [c]"
| "camel_sub (c # d # cs) =
     (if is_sep c \<and> is_ascii_letter d then upper_char d # camel_sub cs
      else c # camel_sub (d # cs))"

text \<open>\<^verbatim>\<open>return name[:1].upper() + name[1:]\<close>\<close>

definition camelify :: "unicode \<Rightarrow> string \<Rightarrow> string" where
  "camelify u name =
     (let name' = camel_sub name
      in str_upper u (fst (split_first name')) @ snd (split_first name'))"

text \<open>
  The conversion as the specification words it, character by character: a separator is
  dropped when the next character is an ASCII letter, a letter that follows a separator
  is upper-cased, every other character is kept.
\<close>

definition camel_char :: "char option \<Rightarrow> char \<Rightarrow> char option \<Rightarrow> string" where
  "camel_char prev c nxt =
     (if is_sep c \<and> (case nxt of None \<Rightarrow> False | Some d \<Rightarrow> is_ascii_letter d) then []
      else if (case prev of None \<Rightarrow> False | Some p \<Rightarrow> is_sep p) \<and> is_ascii_letter c
      then [upper_char c]
      else [c])"

fun camel_spec :: "char option \<Rightarrow> string \<Rightarrow> string" where
  "camel_spec prev [] = []"
| "camel_spec prev (c # cs) =
     camel_char prev c (case cs of [] \<Rightarrow> None | d # _ \<Rightarrow> Some d) @ camel_spec (Some c) cs"

section \<open>Errors, paths and the file system\<close>

text \<open>
  Every exception the modelled code can meet is a value; a function that can raise
  returns \<open>error + 'a\<close> with \<open>Inl\<close> for the exception. \<open>NotModelled\<close> is no exception:
  the reference engine below gives it for a template it does not cover.
\<close>

datatype error =
    TemplateSyntaxError
  | UndefinedError
  | ModuleNotFoundError
  | AttributeError
  | ValueError
  | StopIteration
  | ValidationError
  | FileNotFoundError
  | FileExistsError
  | NotADirectoryError
  | IsADirectoryError
  | ZeroDivisionError
  | OtherError string
  | NotModelled

text \<open>
  A \<^verbatim>\<open>pathlib.Path\<close> is the list of its components (\<^verbatim>\<open>Path.parts\<close>); an absolute path
  starts with the component \<open>''/''\<close>, the empty list is the current directory. The
  world below names a file by this list as it stands: a component \<^verbatim>\<open>..\<close> is not
  resolved, so what is said about a write is said for paths without it.
\<close>

type_synonym path = "string list"

definition path_parts :: "string \<Rightarrow> string list" where
  "path_parts s = filter (\<lambda>c. c \<noteq> [] \<and> c \<noteq> ''.'') (split_on CHR ''/'' s)"

text \<open>\<^verbatim>\<open>d / s\<close>: an absolute right operand replaces the left one.\<close>

definition path_join :: "path \<Rightarrow> string \<Rightarrow> path" where
  "path_join d s =
     (if s \<noteq> [] \<and> hd s = CHR ''/'' then ''/'' # path_parts s else d @ path_parts s)"

definition parent :: "path \<Rightarrow> path" where
  "parent p = (if p = [''/''] then p else butlast p)"

text \<open>The proper, non-empty prefixes of a path: the directories above it.\<close>

definition ancestors :: "path \<Rightarrow> path list" where
  "ancestors p = map (\<lambda>n. take n p) [1..<length p]"

text \<open>\<^verbatim>\<open>Path.stem\<close> of a file name: the name without its last suffix.\<close>

definition name_stem :: "string \<Rightarrow> string" where
  "name_stem name =
     (let parts = split_on CHR ''.'' name; before = join ''.'' (butlast parts)
      in if 1 < length parts \<and> before \<noteq> [] \<and> last parts \<noteq> [] then before else name)"

text \<open>
  \<^verbatim>\<open>p.relative_to(root)\<close> raises ValueError when \<open>root\<close> is not a prefix of \<open>p\<close>; an
  absolute path is not below the relative root \<^verbatim>\<open>Path(".")\<close>.
\<close>

definition is_absolute :: "path \<Rightarrow> bool" where
  "is_absolute p = (case p of [] \<Rightarrow> False | c # _ \<Rightarrow> c = ''/'')"

definition relative_to :: "path \<Rightarrow> path \<Rightarrow> error + path" where
  "relative_to p root =
     (if take (length root) p = root \<and> \<not> (root = [] \<and> is_absolute p)
      then Inr (drop (length root) p) else Inl ValueError)"

text \<open>What the program prints, one value per line.\<close>

datatype message =
    StubLine path
  | GeneratedCount nat
  | RenderedLine path
  | CouldNotRender string error
  | RenderedCount nat

text \<open>
  The state the program works on: the regular files with their contents, the
  directories, and the lines printed so far.
\<close>

record world =
  files :: "(path \<times> string) list"
  dirs :: "path list"
  stdout :: "message list"

definition read_file :: "world \<Rightarrow> path \<Rightarrow> string option" where
  "read_file w p = map_of (files w) p"

definition is_file :: "world \<Rightarrow> path \<Rightarrow> bool" where
  "is_file w p = (read_file w p \<noteq> None)"

definition is_dir :: "world \<Rightarrow> path \<Rightarrow> bool" where
  "is_dir w p = (p = [] \<or> p = [''/''] \<or> p \<in> set (dirs w))"

text \<open>\<^verbatim>\<open>Path.exists()\<close>\<close>

definition path_exists :: "world \<Rightarrow> path \<Rightarrow> bool" where
  "path_exists w p = (is_file w p \<or> is_dir w p)"

text \<open>\<^verbatim>\<open>p.mkdir(parents=True, exist_ok=True)\<close>\<close>

definition mkdir_parents :: "path \<Rightarrow> world \<Rightarrow> error + world" where
  "mkdir_parents p w =
     (if is_dir w p then Inr w
      else if list_ex (is_file w) (ancestors p) then Inl NotADirectoryError
      else if is_file w p then Inl FileExistsError
      else Inr (w\<lparr>dirs := dirs w @ filter (\<lambda>q. \<not> is_dir w q) (ancestors p @ [p])\<rparr>))"

text \<open>
  The error of opening a path below a missing directory for writing: NotADirectoryError
  when a regular file stands where a directory is needed, FileNotFoundError otherwise.
\<close>

definition no_parent_error :: "world \<Rightarrow> path \<Rightarrow> error" where
  "no_parent_error w p =
     (if list_ex (is_file w) (ancestors p) then NotADirectoryError else FileNotFoundError)"

text \<open>
  \<^verbatim>\<open>p.write_text(s, encoding="utf-8")\<close>: creates or truncates the file; its directory
  must exist.
\<close>

definition write_text :: "path \<Rightarrow> string \<Rightarrow> world \<Rightarrow> error + world" where
  "write_text p s w =
     (if is_dir w p then Inl IsADirectoryError
      else if \<not> is_dir w (parent p) then Inl (no_parent_error w p)
      else Inr (w\<lparr>files := AList.update p s (files w)\<rparr>))"

text \<open>
  When a path below existing or missing directories can be written: it has no
  component \<^verbatim>\<open>..\<close>, it is not a directory, and no regular file stands where one of its
  directories has to be.
\<close>

definition can_write :: "world \<Rightarrow> path \<Rightarrow> bool" where
  "can_write w p =
     (''..'' \<notin> set p \<and> \<not> is_dir w p \<and> \<not> list_ex (is_file w) (ancestors p))"

text \<open>\<^verbatim>\<open>p.touch(exist_ok=True)\<close>\<close>

definition touch :: "path \<Rightarrow> world \<Rightarrow> error + world" where
  "touch p w =
     (if path_exists w p then Inr w
      else if \<not> is_dir w (parent p) then Inl (no_parent_error w p)
      else Inr (w\<lparr>files := AList.update p [] (files w)\<rparr>))"

text \<open>
  \<^verbatim>\<open>d.glob("*<suffix>")\<close>: the entries of directory \<open>d\<close> whose name ends with the suffix.
\<close>

definition ends_with :: "string \<Rightarrow> string \<Rightarrow> bool" where
  "ends_with suf s = (length suf \<le> length s \<and> drop (length s - length suf) s = suf)"

definition glob_suffix :: "world \<Rightarrow> path \<Rightarrow> string \<Rightarrow> path list" where
  "glob_suffix w d suf =
     filter (\<lambda>p. p \<noteq> [] \<and> butlast p = d \<and> ends_with suf (last p))
       (remdups (map fst (files w) @ dirs w))"

definition emit :: "message \<Rightarrow> world \<Rightarrow> world" where
  "emit m w = w\<lparr>stdout := stdout w @ [m]\<rparr>"

section \<open>Settings\<close>

record settings =
  project_root :: path
  model_dir :: path
  template_output_dir :: path

text \<open>
  \<^verbatim>\<open>get_settings\<close>: the values come from the environment; the function then makes sure
  the two directories and the package marker exist.
\<close>

definition get_settings :: "settings \<Rightarrow> world \<Rightarrow> (error + settings) \<times> world" where
  "get_settings st w =
     (case mkdir_parents (model_dir st) w of
        Inl e \<Rightarrow> (Inl e, w)
      | Inr w1 \<Rightarrow>
          (case touch (path_join (model_dir st) ''__init__.py'') w1 of
             Inl e \<Rightarrow> (Inl e, w1)
           | Inr w2 \<Rightarrow>
               (case mkdir_parents (template_output_dir st) w2 of
                  Inl e \<Rightarrow> (Inl e, w2)
                | Inr w3 \<Rightarrow> (Inr st, w3))))"

definition template_root :: "settings \<Rightarrow> path" where
  "template_root st = path_join (project_root st) ''.templateer''"

section \<open>textwrap.dedent\<close>

text \<open>
  \<^verbatim>\<open>textwrap.dedent(text)\<close>: lines of blanks and tabs only become empty, the margin is the
  longest common prefix of the leading white space of the other lines, and the margin
  is removed from every line.
\<close>

definition is_blank :: "char \<Rightarrow> bool" where
  "is_blank c = (c = CHR '' '' \<or> c = CHR 0x09)"

definition leading_ws :: "string \<Rightarrow> string" where
  "leading_ws l = takeWhile is_blank l"

fun common_prefix :: "string \<Rightarrow> string \<Rightarrow> string" where
  "common_prefix (x # xs) (y # ys) = (if x = y then x # common_prefix xs ys else [])"
| "common_prefix _ _ = []"

definition dedent_margin :: "string list \<Rightarrow> string" where
  "dedent_margin ls =
     (case map leading_ws (filter (\<lambda>l. l \<noteq> []) ls) of
        [] \<Rightarrow> []
      | i # is \<Rightarrow> fold (\<lambda>indent margin. common_prefix margin indent) is i)"

definition dedent :: "string \<Rightarrow> string" where
  "dedent text =
     (let ls = map (\<lambda>l. if list_all is_blank l then [] else l) (split_on CHR 0x0A text)
      in join [CHR 0x0A] (map (drop (length (dedent_margin ls))) ls))"

section \<open>The stub writer\<close>

text \<open>
  A loaded template module: its \<^verbatim>\<open>__name__\<close> and its string attributes
  (\<^verbatim>\<open>hasattr(mod, a)\<close> is \<open>mod_attrs mod a \<noteq> None\<close>).
\<close>

record pymodule =
  mod_name :: string
  mod_attrs :: "string \<rightharpoonup> string"

text \<open>
  \<^verbatim>\<open>"\n".join(f"    {v}: Any | None = None" for v in sorted(vars_)) or "    pass"\<close>
\<close>

definition field_lines :: "string set \<Rightarrow> string" where
  "field_lines vars =
     (let ls = join [CHR 0x0A]
                 (map (\<lambda>v. ''    '' @ v @ '': Any | None = None'') (sorted_list_of_set vars))
      in if ls = [] then ''    pass'' else ls)"

text \<open>
  The f-string of \<^verbatim>\<open>ModelGenerator.write_model_stub\<close> (generator.py) as it is handed to
  \<^verbatim>\<open>textwrap.dedent\<close>: every source line of the literal carries the twelve blanks of its
  indentation in the method body, and \<^verbatim>\<open>{field_lines}\<close> is already substituted.
\<close>

definition stub_fstring :: "string \<Rightarrow> string \<Rightarrow> string \<Rightarrow> string \<Rightarrow> string \<Rightarrow> string" where
  \<open>stub_fstring class_name stem module_name template_attr flines =
     join [CHR 0x0A]
       [''            from __future__ import annotations'',
        [],
        ''            from typing import Any'',
        [],
        ''            from templateer import TemplateModel'',
        [],
        [],
        ''            class '' @ class_name @ ''(TemplateModel):'',
        ''                """Auto-generated from .templateer/'' @ stem @ ''.py"""'',
        ''                __template__ = "'' @ module_name @ ''.'' @ template_attr @ ''"'',
        [],
        ''            '' @ flines,
        ''            '']\<close>

text \<open>
  The f-string of the older \<^verbatim>\<open>_write_model_stub\<close> (main.py): its lines start in column 0.
  The hyphen of its docstring is U+2011, three bytes in UTF-8.
\<close>

definition main_stub_fstring :: "string \<Rightarrow> string \<Rightarrow> string \<Rightarrow> string \<Rightarrow> string \<Rightarrow> string" where
  \<open>main_stub_fstring class_name stem module_name template_attr flines =
     join [CHR 0x0A]
       [''from __future__ import annotations'',
        [],
        ''from typing import Any'',
        ''from templateer import TemplateModel'',
        [],
        [],
        ''class '' @ class_name @ ''(TemplateModel):'',
        ''    """Auto'' @ [CHR 0xE2, CHR 0x80, CHR 0x91] @ ''generated from .templateer/''
          @ stem @ ''.py"""'',
        ''    __template__ = "'' @ module_name @ ''.'' @ template_attr @ ''"'',
        [],
        flines,
        []]\<close>

definition module_stem :: "pymodule \<Rightarrow> string" where
  "module_stem m = last (split_on CHR ''.'' (mod_name m))"

definition stub_class_name :: "unicode \<Rightarrow> pymodule \<Rightarrow> string" where
  "stub_class_name u m = camelify u (module_stem m) @ ''Template''"

definition stub_path :: "settings \<Rightarrow> pymodule \<Rightarrow> path" where
  "stub_path st m = path_join (model_dir st) (module_stem m @ ''_model.py'')"

definition stub_text :: "unicode \<Rightarrow> pymodule \<Rightarrow> string \<Rightarrow> string set \<Rightarrow> string" where
  "stub_text u m template_attr vars =
     dedent (stub_fstring (stub_class_name u m) (module_stem m) (mod_name m) template_attr
               (field_lines vars))"

definition main_stub_text :: "unicode \<Rightarrow> pymodule \<Rightarrow> string \<Rightarrow> string set \<Rightarrow> string" where
  "main_stub_text u m template_attr vars =
     dedent (main_stub_fstring (stub_class_name u m) (module_stem m) (mod_name m) template_attr
               (field_lines vars))"

text \<open>\<^verbatim>\<open>ModelGenerator.write_model_stub(module, template_attr, vars_)\<close>\<close>

definition write_model_stub ::
  "unicode \<Rightarrow> settings \<Rightarrow> pymodule \<Rightarrow> string \<Rightarrow> string set \<Rightarrow> world \<Rightarrow>
     (error + path) \<times> world" where
  "write_model_stub u st m template_attr vars w =
     (let model_path = stub_path st m
      in if path_exists w model_path then (Inr model_path, w)
         else (case write_text model_path (stub_text u m template_attr vars) w of
                 Inl e \<Rightarrow> (Inl e, w)
               | Inr w' \<Rightarrow> (Inr model_path, w')))"

text \<open>\<^verbatim>\<open>_write_model_stub\<close> of main.py: the same steps around its own f-string.\<close>

definition main_write_model_stub ::
  "unicode \<Rightarrow> settings \<Rightarrow> pymodule \<Rightarrow> string \<Rightarrow> string set \<Rightarrow> world \<Rightarrow>
     (error + path) \<times> world" where
  "main_write_model_stub u st m template_attr vars w =
     (let model_path = stub_path st m
      in if path_exists w model_path then (Inr model_path, w)
         else (case write_text model_path (main_stub_text u m template_attr vars) w of
                 Inl e \<Rightarrow> (Inl e, w)
               | Inr w' \<Rightarrow> (Inr model_path, w')))"

text \<open>
  The stub as the specification describes it, line by line: the record class declared
  at the top level, its back-reference and one nullable field per variable in sorted
  order inside the class body, \<^verbatim>\<open>pass\<close> when there is no variable.
\<close>

definition expected_stub_lines ::
  "unicode \<Rightarrow> pymodule \<Rightarrow> string \<Rightarrow> string set \<Rightarrow> string list" where
  \<open>expected_stub_lines u m template_attr vars =
     [''from __future__ import annotations'',
      [],
      ''from typing import Any'',
      [],
      ''from templateer import TemplateModel'',
      [],
      [],
      ''class '' @ stub_class_name u m @ ''(TemplateModel):'',
      ''    """Auto-generated from .templateer/'' @ module_stem m @ ''.py"""'',
      ''    __template__ = "'' @ mod_name m @ ''.'' @ template_attr @ ''"'',
      []]
     @ (if vars = {} then [''    pass'']
        else map (\<lambda>v. ''    '' @ v @ '': Any | None = None'') (sorted_list_of_set vars))
     @ [[]]\<close>

section \<open>The templating engine\<close>

text \<open>
  The engine (jinja2) is a library outside the repository. The code reaches it through
  three calls, which are the three fields of an \<open>engine\<close>: \<^verbatim>\<open>env.parse\<close>,
  \<^verbatim>\<open>meta.find_undeclared_variables\<close> and \<^verbatim>\<open>template.render\<close>. \<^verbatim>\<open>env.from_string\<close>
  parses the text and compiles the tree; \<open>eng_render\<close> stands for compiling and
  rendering, which \<^verbatim>\<open>TemplateModel.render\<close> does in one go. The options are those
  \<^verbatim>\<open>JinjaEnvironment.__init__\<close> passes to \<^verbatim>\<open>Environment\<close> (the loader plays no part
  for templates given as strings).
\<close>

datatype undefined_type = Undefined | StrictUndefined

record env_options =
  autoescape :: bool
  undefined_opt :: undefined_type
  trim_blocks :: bool
  lstrip_blocks :: bool

definition jinja_env :: env_options where
  "jinja_env =
     \<lparr>autoescape = False, undefined_opt = StrictUndefined,
      trim_blocks = True, lstrip_blocks = True\<rparr>"

record ('ast, 'v) engine =
  eng_parse :: "env_options \<Rightarrow> string \<Rightarrow> error + 'ast"
  eng_undeclared :: "'ast \<Rightarrow> string set"
  eng_render :: "env_options \<Rightarrow> 'ast \<Rightarrow> (string \<rightharpoonup> 'v) \<Rightarrow> error + string"

text \<open>\<^verbatim>\<open>ModelGenerator.extract_template_vars(template_str)\<close>\<close>

definition extract_template_vars :: "('ast, 'v) engine \<Rightarrow> string \<Rightarrow> error + string set" where
  "extract_template_vars eng template_str =
     (case eng_parse eng jinja_env template_str of
        Inl e \<Rightarrow> Inl e
      | Inr ast \<Rightarrow> Inr (eng_undeclared eng ast))"

section \<open>The template binding\<close>

text \<open>
  A \<^verbatim>\<open>TemplateModel\<close> instance: the name of its class, \<^verbatim>\<open>__template__\<close>, \<^verbatim>\<open>__output__\<close>
  and the dictionary \<^verbatim>\<open>model_dump()\<close> returns.
\<close>

record 'v template_model =
  tm_class_name :: string
  tm_template :: string
  tm_output :: "string option"
  tm_fields :: "string \<rightharpoonup> 'v"

text \<open>\<^verbatim>\<open>s.rpartition(sep)\<close> for a one-character separator.\<close>

definition rpartition :: "char \<Rightarrow> string \<Rightarrow> string \<times> string \<times> string" where
  "rpartition sep s =
     (let parts = split_on sep s
      in if length parts \<le> 1 then ([], [], s)
         else (join [sep] (butlast parts), [sep], last parts))"

text \<open>
  \<^verbatim>\<open>TemplateModel._template_str\<close>. \<open>mods\<close> are the modules \<^verbatim>\<open>__import__\<close> can find;
  an empty module name raises ValueError.
\<close>

definition template_str :: "(string \<rightharpoonup> pymodule) \<Rightarrow> 'v template_model \<Rightarrow> error + string" where
  "template_str mods inst =
     (case rpartition CHR ''.'' (tm_template inst) of
        (module_path, _, var_name) \<Rightarrow>
          if module_path = [] then Inl ValueError
          else (case mods module_path of
                  None \<Rightarrow> Inl ModuleNotFoundError
                | Some m \<Rightarrow>
                    (case mod_attrs m var_name of
                       None \<Rightarrow> Inl AttributeError
                     | Some t \<Rightarrow> Inr t)))"

text \<open>\<^verbatim>\<open>TemplateModel._output_path\<close>\<close>

definition output_filename :: "unicode \<Rightarrow> 'v template_model \<Rightarrow> string" where
  "output_filename u inst =
     (case tm_output inst of
        Some out \<Rightarrow>
          if out \<noteq> [] then out
          else str_lower u (removesuffix ''Template'' (tm_class_name inst)) @ ''.py''
      | None \<Rightarrow> str_lower u (removesuffix ''Template'' (tm_class_name inst)) @ ''.py'')"

definition output_path :: "unicode \<Rightarrow> settings \<Rightarrow> 'v template_model \<Rightarrow> path" where
  "output_path u st inst = path_join (template_output_dir st) (output_filename u inst)"

text \<open>\<^verbatim>\<open>TemplateModel.render()\<close>\<close>

definition render ::
  "('ast, 'v) engine \<Rightarrow> (string \<rightharpoonup> pymodule) \<Rightarrow> 'v template_model \<Rightarrow> error + string" where
  "render eng mods inst =
     (case template_str mods inst of
        Inl e \<Rightarrow> Inl e
      | Inr t \<Rightarrow>
          (case eng_parse eng jinja_env t of
             Inl e \<Rightarrow> Inl e
           | Inr ast \<Rightarrow> eng_render eng jinja_env ast (tm_fields inst)))"

text \<open>\<^verbatim>\<open>TemplateModel.generate(write)\<close>\<close>

definition generate ::
  "unicode \<Rightarrow> ('ast, 'v) engine \<Rightarrow> (string \<rightharpoonup> pymodule) \<Rightarrow> settings \<Rightarrow> 'v template_model \<Rightarrow> bool \<Rightarrow>
     world \<Rightarrow> (error + string) \<times> world" where
  "generate u eng mods st inst write w =
     (case render eng mods inst of
        Inl e \<Rightarrow> (Inl e, w)
      | Inr code \<Rightarrow>
          if write then
            (case mkdir_parents (parent (output_path u st inst)) w of
               Inl e \<Rightarrow> (Inl e, w)
             | Inr w1 \<Rightarrow>
                 (case write_text (output_path u st inst) code w1 of
                    Inl e \<Rightarrow> (Inl e, w1)
                  | Inr w2 \<Rightarrow> (Inr code, w2)))
          else (Inr code, w))"

section \<open>The discovery pass\<close>

definition discover_template_modules :: "settings \<Rightarrow> world \<Rightarrow> path list" where
  "discover_template_modules st w = glob_suffix w (template_root st) ''.py''"

text \<open>
  The loop of \<^verbatim>\<open>ModelGenerator.autogen_models\<close>. \<open>loader\<close> stands for
  \<^verbatim>\<open>runpy.run_path(tpl_py)["__loader__"].load_module()\<close>: it runs Python code, so its
  result is a parameter (the entry the function adds to \<^verbatim>\<open>sys.path\<close> only matters to
  what can be imported). No statement of the loop catches an exception.
\<close>

fun autogen_loop ::
  "unicode \<Rightarrow> ('ast, 'v) engine \<Rightarrow> (path \<Rightarrow> error + pymodule) \<Rightarrow> settings \<Rightarrow> bool \<Rightarrow> path list \<Rightarrow>
     path list \<Rightarrow> world \<Rightarrow> (error + path list) \<times> world" where
  "autogen_loop u eng loader st verbose [] generated w = (Inr generated, w)"
| "autogen_loop u eng loader st verbose (tpl_py # rest) generated w =
     (case loader tpl_py of
        Inl e \<Rightarrow> (Inl e, w)
      | Inr m \<Rightarrow>
          (case mod_attrs m ''TEMPLATE'' of
             None \<Rightarrow> autogen_loop u eng loader st verbose rest generated w
           | Some t \<Rightarrow>
               (case extract_template_vars eng t of
                  Inl e \<Rightarrow> (Inl e, w)
                | Inr vars \<Rightarrow>
                    (case write_model_stub u st m ''TEMPLATE'' vars w of
                       (Inl e, w') \<Rightarrow> (Inl e, w')
                     | (Inr model_path, w') \<Rightarrow>
                         if verbose then
                           (case relative_to model_path (project_root st) of
                              Inl e \<Rightarrow> (Inl e, w')
                            | Inr rel_path \<Rightarrow>
                                autogen_loop u eng loader st verbose rest
                                  (generated @ [model_path]) (emit (StubLine rel_path) w'))
                         else autogen_loop u eng loader st verbose rest
                                (generated @ [model_path]) w'))))"

definition autogen_models ::
  "unicode \<Rightarrow> ('ast, 'v) engine \<Rightarrow> (path \<Rightarrow> error + pymodule) \<Rightarrow> settings \<Rightarrow> bool \<Rightarrow> world \<Rightarrow>
     (error + path list) \<times> world" where
  "autogen_models u eng loader st verbose w =
     autogen_loop u eng loader st verbose (discover_template_modules st w) [] w"

text \<open>The \<^verbatim>\<open>autogen\<close> command of cli.py.\<close>

definition cli_autogen ::
  "unicode \<Rightarrow> ('ast, 'v) engine \<Rightarrow> (path \<Rightarrow> error + pymodule) \<Rightarrow> settings \<Rightarrow> bool \<Rightarrow> world \<Rightarrow>
     (error + unit) \<times> world" where
  "cli_autogen u eng loader st verbose w =
     (case autogen_models u eng loader st verbose w of
        (Inl e, w') \<Rightarrow> (Inl e, w')
      | (Inr generated, w') \<Rightarrow>
          (Inr (), if \<not> verbose then emit (GeneratedCount (length generated)) w' else w'))"

text \<open>
  The modules the discovery pass reports, in the specification's words: of the
  discovered files, in order, those that load and expose a \<^verbatim>\<open>TEMPLATE\<close> constant.
\<close>

definition template_modules :: "(path \<Rightarrow> error + pymodule) \<Rightarrow> path list \<Rightarrow> pymodule list" where
  "template_modules loader ps =
     concat (map (\<lambda>p. case loader p of
                          Inl e \<Rightarrow> []
                        | Inr m \<Rightarrow> (if mod_attrs m ''TEMPLATE'' \<noteq> None then [m] else [])) ps)"

section \<open>The generation pass\<close>

text \<open>
  What the generation pass sees of an imported stub module: its namespace
  \<^verbatim>\<open>mod.__dict__\<close> in insertion order. Of a class it uses whether it is a subclass of
  \<^verbatim>\<open>TemplateModel\<close>, whether it is \<^verbatim>\<open>TemplateModel\<close> itself, and what calling it without
  arguments gives (a required field without a default raises ValidationError).
\<close>

record 'v pyclass =
  pc_name :: string
  pc_is_template_model :: bool
  pc_is_base :: bool
  pc_new :: "error + 'v template_model"

datatype 'v pyobj = PyClass "'v pyclass" | PyOther

text \<open>
  \<^verbatim>\<open>next(c for c in mod.__dict__.values() if isinstance(c, type) and
  issubclass(c, TemplateModel) and c is not TemplateModel)\<close>
\<close>

fun find_template_class :: "(string \<times> 'v pyobj) list \<Rightarrow> error + 'v pyclass" where
  "find_template_class [] = Inl StopIteration"
| "find_template_class ((n, PyClass c) # rest) =
     (if pc_is_template_model c \<and> \<not> pc_is_base c then Inr c else find_template_class rest)"
| "find_template_class ((n, PyOther) # rest) = find_template_class rest"

definition path_stem :: "path \<Rightarrow> string" where
  "path_stem p = (if p = [] then [] else name_stem (last p))"

text \<open>The \<^verbatim>\<open>except Exception as exc\<close> branch of the loop in cli.py.\<close>

definition could_not_render :: "bool \<Rightarrow> path \<Rightarrow> error \<Rightarrow> nat \<Rightarrow> world \<Rightarrow> nat \<times> world" where
  "could_not_render verbose stub exc rendered_count w =
     (rendered_count, if verbose then emit (CouldNotRender (path_stem stub) exc) w else w)"

text \<open>
  One turn of the loop of \<^verbatim>\<open>generate\<close> in cli.py: the body of its \<^verbatim>\<open>try\<close>. \<open>importer\<close>
  stands for \<^verbatim>\<open>importlib.import_module\<close>.
\<close>

definition render_stub ::
  "unicode \<Rightarrow> ('ast, 'v) engine \<Rightarrow> (string \<rightharpoonup> pymodule) \<Rightarrow> (string \<Rightarrow> error + (string \<times> 'v pyobj) list) \<Rightarrow>
     settings \<Rightarrow> bool \<Rightarrow> path \<Rightarrow> nat \<times> world \<Rightarrow> nat \<times> world" where
  "render_stub u eng mods importer st verbose stub cw =
     (case cw of (rendered_count, w) \<Rightarrow>
        (case importer (''templateer.models.'' @ path_stem stub) of
           Inl exc \<Rightarrow> could_not_render verbose stub exc rendered_count w
         | Inr ns \<Rightarrow>
             (case find_template_class ns of
                Inl exc \<Rightarrow> could_not_render verbose stub exc rendered_count w
              | Inr tmpl_cls \<Rightarrow>
                  (case pc_new tmpl_cls of
                     Inl exc \<Rightarrow> could_not_render verbose stub exc rendered_count w
                   | Inr inst \<Rightarrow>
                       (case generate u eng mods st inst True w of
                          (Inl exc, w') \<Rightarrow> could_not_render verbose stub exc rendered_count w'
                        | (Inr code, w') \<Rightarrow>
                            if verbose then
                              (case relative_to (output_path u st inst) (project_root st) of
                                 Inl exc \<Rightarrow>
                                   could_not_render verbose stub exc (rendered_count + 1) w'
                               | Inr rel_path \<Rightarrow>
                                   (rendered_count + 1, emit (RenderedLine rel_path) w'))
                            else (rendered_count + 1, w'))))))"

text \<open>The \<^verbatim>\<open>generate\<close> command of cli.py; the result is \<^verbatim>\<open>rendered_count\<close>.\<close>

definition cli_generate ::
  "unicode \<Rightarrow> ('ast, 'v) engine \<Rightarrow> (string \<rightharpoonup> pymodule) \<Rightarrow> (path \<Rightarrow> error + pymodule) \<Rightarrow>
     (string \<Rightarrow> error + (string \<times> 'v pyobj) list) \<Rightarrow> settings \<Rightarrow> bool \<Rightarrow> world \<Rightarrow>
     (error + nat) \<times> world" where
  "cli_generate u eng mods loader importer st verbose w =
     (case autogen_models u eng loader st verbose w of
        (Inl e, w1) \<Rightarrow> (Inl e, w1)
      | (Inr generated, w1) \<Rightarrow>
          (let w2 = (if verbose then emit (GeneratedCount (length generated)) w1 else w1)
           in case fold (render_stub u eng mods importer st verbose)
                     (glob_suffix w2 (model_dir st) ''_model.py'') (0, w2) of
                (rendered_count, w3) \<Rightarrow>
                  (Inr rendered_count,
                   if \<not> verbose then emit (RenderedCount rendered_count) w3 else w3)))"

text \<open>
  The eligible classes of a stub module, in the specification's words: the classes of
  the namespace that are subclasses of \<^verbatim>\<open>TemplateModel\<close> other than the base class.
\<close>

fun eligible_classes :: "(string \<times> 'v pyobj) list \<Rightarrow> 'v pyclass list" where
  "eligible_classes [] = []"
| "eligible_classes ((n, PyClass c) # rest) =
     (if pc_is_template_model c \<and> \<not> pc_is_base c then c # eligible_classes rest
      else eligible_classes rest)"
| "eligible_classes ((n, PyOther) # rest) = eligible_classes rest"


section \<open>A reference engine\<close>

text \<open>
  The library's behaviour on a fragment of the template language, to run the functions
  above on concrete templates: literal text and outputs \<^verbatim>\<open>{{ e }}\<close> where \<open>e\<close> is a
  variable, the test \<^verbatim>\<open>x is defined\<close>, or the floor division \<^verbatim>\<open>a // b\<close> of two decimal
  literals, its tokens separated by blanks. As the library does, it turns \<^verbatim>\<open>\r\n\<close> and
  \<^verbatim>\<open>\r\<close> into \<^verbatim>\<open>\n\<close>, drops one final newline, takes a single brace for text, raises
  TemplateSyntaxError for an output that is never closed, and with \<open>StrictUndefined\<close>
  raises UndefinedError when it has to print a variable without a binding (with
  \<open>Undefined\<close> it prints nothing); a bound variable prints its value, here the string
  the value converts to. For a template outside the fragment the result is the marker
  \<open>NotModelled\<close>, which says nothing about the library.
\<close>

datatype expr = Name string | IsDefined string | FloorDiv nat nat

datatype node = TemplateData string | Output expr

text \<open>The lines of the source, split at \<^verbatim>\<open>\r\n\<close>, \<^verbatim>\<open>\r\<close> and \<^verbatim>\<open>\n\<close>.\<close>

definition cons_first :: "char \<Rightarrow> string list \<Rightarrow> string list" where
  "cons_first c ls = (case ls of [] \<Rightarrow> [[c]] | l # rest \<Rightarrow> (c # l) # rest)"

fun split_newlines :: "string \<Rightarrow> string list" where
  "split_newlines [] = [[]]"
| "split_newlines [c] = (if c = CHR 0x0D \<or> c = CHR 0x0A then [[], []] else [[c]])"
| "split_newlines (c # d # cs) =
     (if c = CHR 0x0D \<and> d = CHR 0x0A then [] # split_newlines cs
      else if c = CHR 0x0D \<or> c = CHR 0x0A then [] # split_newlines (d # cs)
      else cons_first c (split_newlines (d # cs)))"

definition normalize_source :: "string \<Rightarrow> string" where
  "normalize_source s =
     (let ls = split_newlines s
      in join [CHR 0x0A] (if ls \<noteq> [] \<and> last ls = [] then butlast ls else ls))"

text \<open>The tokens of an expression, and the three forms of the fragment.\<close>

definition is_space :: "char \<Rightarrow> bool" where
  "is_space c = (c = CHR '' '' \<or> c = CHR 0x09 \<or> c = CHR 0x0A)"

fun split_spaces :: "string \<Rightarrow> string list" where
  "split_spaces [] = [[]]"
| "split_spaces (c # cs) =
     (if is_space c then [] # split_spaces cs else cons_first c (split_spaces cs))"

definition tokens :: "string \<Rightarrow> string list" where
  "tokens s = filter (\<lambda>t. t \<noteq> []) (split_spaces s)"

definition decimal_digits :: string where
  "decimal_digits = ''0123456789''"

definition is_name_start :: "char \<Rightarrow> bool" where
  "is_name_start c = (is_ascii_letter c \<or> c = CHR ''_'')"

definition is_name_char :: "char \<Rightarrow> bool" where
  "is_name_char c = (is_name_start c \<or> c \<in> set decimal_digits)"

definition is_identifier :: "string \<Rightarrow> bool" where
  "is_identifier s = (case s of [] \<Rightarrow> False | c # cs \<Rightarrow> is_name_start c \<and> list_all is_name_char cs)"

text \<open>
  Names the library does not look up among the bindings: its constants, its keywords
  and the functions every environment has.
\<close>

definition reserved_names :: "string list" where
  "reserved_names =
     [''true'', ''false'', ''none'', ''True'', ''False'', ''None'', ''and'', ''or'', ''not'',
      ''in'', ''is'', ''if'', ''else'', ''range'', ''dict'', ''lipsum'', ''cycler'', ''joiner'',
      ''namespace'']"

definition is_variable :: "string \<Rightarrow> bool" where
  "is_variable s = (is_identifier s \<and> s \<notin> set reserved_names)"

definition is_decimal :: "string \<Rightarrow> bool" where
  "is_decimal s =
     (case s of [] \<Rightarrow> False
      | c # cs \<Rightarrow> list_all (\<lambda>d. d \<in> set decimal_digits) s \<and> (cs = [] \<or> c \<noteq> CHR ''0''))"

definition digit_value :: "char \<Rightarrow> nat" where
  "digit_value c = (case map_of (zip decimal_digits [0..<10]) c of None \<Rightarrow> 0 | Some d \<Rightarrow> d)"

definition nat_of_decimal :: "string \<Rightarrow> nat" where
  "nat_of_decimal s = foldl (\<lambda>a c. 10 * a + digit_value c) 0 s"

fun parse_expr :: "string list \<Rightarrow> expr option" where
  "parse_expr [x] = (if is_variable x then Some (Name x) else None)"
| "parse_expr [x, y, z] =
     (if y = ''is'' \<and> z = ''defined'' \<and> is_variable x then Some (IsDefined x)
      else if y = ''//'' \<and> is_decimal x \<and> is_decimal z
      then Some (FloorDiv (nat_of_decimal x) (nat_of_decimal z))
      else None)"
| "parse_expr ts = None"

text \<open>The scan for \<^verbatim>\<open>{{\<close> and \<^verbatim>\<open>}}\<close>; blocks \<^verbatim>\<open>{%\<close> and comments \<^verbatim>\<open>{#\<close> are not modelled.\<close>

datatype scan_mode = InText string | InExpr string

definition flush_text :: "string \<Rightarrow> node list" where
  "flush_text acc = (if acc = [] then [] else [TemplateData acc])"

definition prepend_nodes :: "node list \<Rightarrow> error + node list \<Rightarrow> error + node list" where
  "prepend_nodes ns r = (case r of Inl e \<Rightarrow> Inl e | Inr ms \<Rightarrow> Inr (ns @ ms))"

fun ref_scan :: "scan_mode \<Rightarrow> string \<Rightarrow> error + node list" where
  "ref_scan (InText acc) [] = Inr (flush_text acc)"
| "ref_scan (InText acc) [c] = Inr (flush_text (acc @ [c]))"
| "ref_scan (InText acc) (c # d # cs) =
     (if c = CHR ''{'' \<and> d = CHR ''{''
      then prepend_nodes (flush_text acc) (ref_scan (InExpr []) cs)
      else if c = CHR ''{'' \<and> (d = CHR ''%'' \<or> d = CHR ''#'') then Inl NotModelled
      else ref_scan (InText (acc @ [c])) (d # cs))"
| "ref_scan (InExpr acc) [] = Inl TemplateSyntaxError"
| "ref_scan (InExpr acc) [c] = Inl TemplateSyntaxError"
| "ref_scan (InExpr acc) (c # d # cs) =
     (if c = CHR ''}'' \<and> d = CHR ''}'' then
        (case parse_expr (tokens acc) of
           None \<Rightarrow> Inl NotModelled
         | Some e \<Rightarrow> prepend_nodes [Output e] (ref_scan (InText []) cs))
      else ref_scan (InExpr (acc @ [c])) (d # cs))"

definition ref_parse :: "env_options \<Rightarrow> string \<Rightarrow> error + node list" where
  "ref_parse opts s = ref_scan (InText []) (normalize_source s)"

fun node_vars :: "node \<Rightarrow> string list" where
  "node_vars (TemplateData t) = []"
| "node_vars (Output (Name v)) = [v]"
| "node_vars (Output (IsDefined v)) = [v]"
| "node_vars (Output (FloorDiv a b)) = []"

definition ref_undeclared :: "node list \<Rightarrow> string set" where
  "ref_undeclared ast = set (concat (map node_vars ast))"

text \<open>\<^verbatim>\<open>str(n)\<close> of a natural number.\<close>

fun string_of_nat :: "nat \<Rightarrow> string" where
  "string_of_nat n =
     (if n < 10 then [decimal_digits ! n]
      else string_of_nat (n div 10) @ [decimal_digits ! (n mod 10)])"

fun render_node :: "env_options \<Rightarrow> node \<Rightarrow> (string \<rightharpoonup> string) \<Rightarrow> error + string" where
  "render_node opts (TemplateData t) b = Inr t"
| "render_node opts (Output (Name v)) b =
     (case b v of
        None \<Rightarrow> if undefined_opt opts = StrictUndefined then Inl UndefinedError else Inr []
      | Some x \<Rightarrow> Inr x)"
| "render_node opts (Output (IsDefined v)) b =
     (case b v of None \<Rightarrow> Inr ''False'' | Some x \<Rightarrow> Inr ''True'')"
| "render_node opts (Output (FloorDiv n d)) b =
     (if d = 0 then Inl ZeroDivisionError else Inr (string_of_nat (n div d)))"

fun ref_render :: "env_options \<Rightarrow> node list \<Rightarrow> (string \<rightharpoonup> string) \<Rightarrow> error + string" where
  "ref_render opts [] b = Inr []"
| "ref_render opts (n # ns) b =
     (case render_node opts n b of
        Inl e \<Rightarrow> Inl e
      | Inr s \<Rightarrow> (case ref_render opts ns b of Inl e \<Rightarrow> Inl e | Inr r \<Rightarrow> Inr (s @ r)))"

definition ref_engine :: "(node list, string) engine" where
  "ref_engine =
     \<lparr>eng_parse = ref_parse, eng_undeclared = ref_undeclared, eng_render = ref_render\<rparr>"


section \<open>Example inputs\<close>

text \<open>
  The case conversions the examples consult: the capital of the letter e with acute
  accent (the bytes C3 A9) is the bytes C3 89, and the capital of the sharp s (C3 9F) is
  \<^verbatim>\<open>SS\<close>. No other string with a byte outside ASCII occurs in the examples.
\<close>

definition ex_unicode :: unicode where
  "ex_unicode =
     \<lparr>uc_upper = (\<lambda>s. if s = [CHR 0xC3, CHR 0xA9] then [CHR 0xC3, CHR 0x89]
                      else if s = [CHR 0xC3, CHR 0x9F] then ''SS'' else s),
      uc_lower = (\<lambda>s. if s = [CHR 0xC3, CHR 0x89] then [CHR 0xC3, CHR 0xA9] else s)\<rparr>"

text \<open>
  The default settings (\<^verbatim>\<open>Path("templateer") / "models"\<close>, \<^verbatim>\<open>Path("TEMPLATE_DIR")\<close>) with
  the current directory as project root, an empty world, and the world \<^verbatim>\<open>get_settings\<close>
  leaves behind when it starts from the empty one.
\<close>

definition ex_settings :: settings where
  "ex_settings =
     \<lparr>project_root = [], model_dir = [''templateer'', ''models''],
      template_output_dir = [''TEMPLATE_DIR'']\<rparr>"

definition empty_world :: world where
  "empty_world = \<lparr>files = [], dirs = [], stdout = []\<rparr>"

definition ex_world :: world where
  "ex_world =
     \<lparr>files = [([''templateer'', ''models'', ''__init__.py''], [])],
      dirs = [[''templateer''], [''templateer'', ''models''], [''TEMPLATE_DIR'']],
      stdout = []\<rparr>"

definition ex_module :: "string \<Rightarrow> string \<Rightarrow> pymodule" where
  "ex_module name t = \<lparr>mod_name = name, mod_attrs = [''TEMPLATE'' \<mapsto> t]\<rparr>"

text \<open>
  The modules \<^verbatim>\<open>__import__\<close> finds in the examples, and a binding instance of a class
  \<^verbatim>\<open>GreetingTemplate\<close> whose template is \<^verbatim>\<open>greeting.TEMPLATE\<close>.
\<close>

definition ex_modules :: "string \<rightharpoonup> pymodule" where
  "ex_modules =
     [''greeting'' \<mapsto> ex_module ''greeting'' ''Hello {{ name }}!'',
      ''hello'' \<mapsto> ex_module ''hello'' ''hello world'',
      ''probe'' \<mapsto> ex_module ''probe'' ''{{ x is defined }}'',
      ''ratio'' \<mapsto> ex_module ''ratio'' ''{{ 1 // 0 }}'',
      ''quotient'' \<mapsto> ex_module ''quotient'' ''{{ 7 // 2 }}'',
      ''trailing'' \<mapsto> ex_module ''trailing'' (''hello world'' @ [CHR 0x0A])]"

text \<open>An instance without fields whose template is the literal text of \<^verbatim>\<open>hello.TEMPLATE\<close>.\<close>

definition ex_hello :: "string template_model" where
  "ex_hello =
     \<lparr>tm_class_name = ''HelloTemplate'', tm_template = ''hello.TEMPLATE'',
      tm_output = None, tm_fields = Map.empty\<rparr>"

definition ex_instance :: "(string \<rightharpoonup> string) \<Rightarrow> string template_model" where
  "ex_instance bindings =
     \<lparr>tm_class_name = ''GreetingTemplate'', tm_template = ''greeting.TEMPLATE'',
      tm_output = None, tm_fields = bindings\<rparr>"

text \<open>
  The same class with \<^verbatim>\<open>__output__ = "custom.py"\<close>; an instance without fields whose
  template tests a variable; and one whose template divides by zero.
\<close>

definition ex_custom :: "string template_model" where
  "ex_custom =
     \<lparr>tm_class_name = ''GreetingTemplate'', tm_template = ''greeting.TEMPLATE'',
      tm_output = Some ''custom.py'', tm_fields = [''name'' \<mapsto> ''Ada'']\<rparr>"





text \<open>
  A project with the template files \<^verbatim>\<open>greeting.py\<close>, \<^verbatim>\<open>broken.py\<close> (its template
  lacks the closing braces), \<^verbatim>\<open>util.py\<close> (no \<^verbatim>\<open>TEMPLATE\<close>) and \<^verbatim>\<open>hello.py\<close>, and what
  loading each of them gives.
\<close>

definition ex_loader :: "path \<Rightarrow> error + pymodule" where
  "ex_loader p =
     (if p = [''.templateer'', ''greeting.py''] then Inr (ex_module ''greeting'' ''Hello {{ name }}!'')
      else if p = [''.templateer'', ''broken.py''] then Inr (ex_module ''broken'' ''Hello {{ name'')
      else if p = [''.templateer'', ''util.py''] then Inr \<lparr>mod_name = ''util'', mod_attrs = Map.empty\<rparr>
      else if p = [''.templateer'', ''hello.py''] then Inr (ex_module ''hello'' ''hello world'')
      else Inl ModuleNotFoundError)"

text \<open>
  A world where the stub of \<^verbatim>\<open>greeting\<close> exists already, edited by the user, and the
  templates are \<^verbatim>\<open>greeting.py\<close>, \<^verbatim>\<open>util.py\<close> and \<^verbatim>\<open>hello.py\<close>.
\<close>

definition ex_project :: world where
  \<open>ex_project =
     \<lparr>files =
        [([''.templateer'', ''greeting.py''], ''TEMPLATE = "Hello {{ name }}!"''),
         ([''.templateer'', ''util.py''], ''INDENT = 4''),
         ([''.templateer'', ''hello.py''], ''TEMPLATE = "hello world"''),
         ([''templateer'', ''models'', ''__init__.py''], []),
         ([''templateer'', ''models'', ''greeting_model.py''], ''# my edit'')],
      dirs = [[''.templateer''], [''templateer''], [''templateer'', ''models''], [''TEMPLATE_DIR'']],
      stdout = []\<rparr>\<close>

text \<open>A world with three templates of which the second does not parse, and no stub yet.\<close>

definition ex_broken_project :: world where
  \<open>ex_broken_project =
     \<lparr>files =
        [([''.templateer'', ''greeting.py''], ''TEMPLATE = "Hello {{ name }}!"''),
         ([''.templateer'', ''broken.py''], ''TEMPLATE = "Hello {{ name"''),
         ([''.templateer'', ''hello.py''], ''TEMPLATE = "hello world"''),
         ([''templateer'', ''models'', ''__init__.py''], [])],
      dirs = [[''.templateer''], [''templateer''], [''templateer'', ''models''], [''TEMPLATE_DIR'']],
      stdout = []\<rparr>\<close>

text \<open>
  The namespace of a stub module that imports \<^verbatim>\<open>TemplateModel\<close> and declares two binding
  classes, the namespace of one that declares none, and what importing gives.
\<close>

definition ex_base_class :: "string pyclass" where
  "ex_base_class =
     \<lparr>pc_name = ''TemplateModel'', pc_is_template_model = True, pc_is_base = True,
      pc_new = Inl ValidationError\<rparr>"

definition ex_greeting_class :: "string pyclass" where
  "ex_greeting_class =
     \<lparr>pc_name = ''GreetingTemplate'', pc_is_template_model = True, pc_is_base = False,
      pc_new = Inr (ex_instance [''name'' \<mapsto> ''Ada''])\<rparr>"

definition ex_hello_class :: "string pyclass" where
  "ex_hello_class =
     \<lparr>pc_name = ''HelloTemplate'', pc_is_template_model = True, pc_is_base = False,
      pc_new = Inr ex_hello\<rparr>"

definition ex_two_classes :: "(string \<times> string pyobj) list" where
  "ex_two_classes =
     [(''annotations'', PyOther), (''Any'', PyOther), (''TemplateModel'', PyClass ex_base_class),
      (''GreetingTemplate'', PyClass ex_greeting_class),
      (''HelloTemplate'', PyClass ex_hello_class)]"

definition ex_no_class :: "(string \<times> string pyobj) list" where
  "ex_no_class =
     [(''annotations'', PyOther), (''Any'', PyOther), (''TemplateModel'', PyClass ex_base_class)]"

definition ex_importer :: "string \<Rightarrow> error + (string \<times> string pyobj) list" where
  "ex_importer name =
     (if name = ''templateer.models.greeting_model'' then Inr ex_two_classes
      else if name = ''templateer.models.empty_model'' then Inr ex_no_class
      else Inl ModuleNotFoundError)"

section \<open>Properties of camelify\<close>

lemma is_sep_not_letter: "is_sep c \<Longrightarrow> \<not> is_ascii_letter c"
  by (auto simp: is_sep_def is_ascii_letter_def ascii_lowercase_def ascii_uppercase_def)

lemma camel_sub_append:
  "\<not> is_ascii_letter c \<Longrightarrow> camel_sub (xs @ c # ys) = camel_sub xs @ camel_sub (c # ys)"
  by (induction xs rule: camel_sub.induct) auto

lemma camel_spec_after_sep_letter:
  "is_sep p \<Longrightarrow> is_ascii_letter d \<Longrightarrow>
     camel_spec (Some p) (d # ds) = upper_char d # camel_spec (Some d) ds"
  using is_sep_not_letter [of d] by (auto simp: camel_char_def)

lemma camel_spec_after_sep_other:
  "\<not> is_ascii_letter d \<Longrightarrow> camel_spec (Some p) (d # ds) = camel_spec None (d # ds)"
  by (simp add: camel_char_def)

lemma camel_spec_after_other:
  "\<not> is_sep p \<Longrightarrow> camel_spec (Some p) s = camel_spec None s"
  by (cases s) (auto simp: camel_char_def split: list.splits)

lemma camel_spec_after_letter:
  "is_ascii_letter d \<Longrightarrow> camel_spec (Some d) s = camel_spec None s"
  using camel_spec_after_other is_sep_not_letter by blast

lemma camel_sub_spec: "camel_sub s = camel_spec None s"
proof (induction s rule: camel_sub.induct)
  case 1
  show ?case by simp
next
  case (2 c)
  show ?case by (simp add: camel_char_def)
next
  case (3 c d cs)
  show ?case
  proof (cases "is_sep c \<and> is_ascii_letter d")
    case True
    then have "camel_spec None (c # d # cs) = camel_spec (Some c) (d # cs)"
      by (simp add: camel_char_def)
    also have "\<dots> = upper_char d # camel_spec (Some d) cs"
      using True by (simp only: camel_spec_after_sep_letter)
    also have "\<dots> = upper_char d # camel_sub cs"
      using True 3 by (simp add: camel_spec_after_letter)
    finally show ?thesis using True by simp
  next
    case False
    then have "camel_spec None (c # d # cs) = c # camel_spec (Some c) (d # cs)"
      by (auto simp: camel_char_def)
    also have "camel_spec (Some c) (d # cs) = camel_spec None (d # cs)"
    proof (cases "is_sep c")
      case True
      with False have "\<not> is_ascii_letter d" by simp
      then show ?thesis by (rule camel_spec_after_sep_other)
    next
      case False
      then show ?thesis by (rule camel_spec_after_other)
    qed
    finally show ?thesis using False 3 by auto
  qed
qed

lemma upper_char_idem: "upper_char (upper_char c) = upper_char c"
  by (simp add: upper_char_def ascii_lowercase_def ascii_uppercase_def)

lemma upper_char_range: "upper_char c = c \<or> upper_char c \<in> set ascii_uppercase"
proof (cases "map_of (zip ascii_lowercase ascii_uppercase) c")
  case None
  then show ?thesis by (simp add: upper_char_def)
next
  case (Some v)
  then have "(c, v) \<in> set (zip ascii_lowercase ascii_uppercase)" by (rule map_of_SomeD)
  then have "v \<in> set ascii_uppercase" by (rule set_zip_rightD)
  with Some show ?thesis by (simp add: upper_char_def)
qed

lemma ascii_uppercase_ascii: "c \<in> set ascii_uppercase \<Longrightarrow> is_ascii c"
  by (auto simp: ascii_uppercase_def is_ascii_def)

lemma upper_char_ascii: "is_ascii c \<Longrightarrow> is_ascii (upper_char c)"
  using upper_char_range [of c] ascii_uppercase_ascii by auto

lemma is_sep_ascii: "is_sep c \<Longrightarrow> is_ascii c"
  by (auto simp: is_sep_def is_ascii_def)

lemma is_ascii_letter_ascii: "is_ascii_letter c \<Longrightarrow> is_ascii c"
  by (auto simp: is_ascii_letter_def ascii_lowercase_def ascii_uppercase_def is_ascii_def)

lemma camelify_ascii_first:
  "camel_sub s = a # rest \<Longrightarrow> is_ascii a \<Longrightarrow> camelify u s = upper_char a # rest"
  by (simp add: camelify_def Let_def str_upper_def)

lemma camel_sub_keep:
  "\<not> (is_sep a \<and> t \<noteq> [] \<and> is_ascii_letter (hd t)) \<Longrightarrow> camel_sub (a # t) = a # camel_sub t"
  by (cases t) auto

text \<open>
  C9. The substitution of \<open>camelify\<close> drops an underscore or hyphen and upper-cases the
  character after it exactly when that character is an ASCII letter; a separator at
  the end of the name, or before a digit or another separator, stays in the class name
  (\<open>camelify u ''foo__bar'' = ''Foo_Bar''\<close>). Then the first character is upper-cased:
  the result is \<^verbatim>\<open>str.upper\<close> of the first code point followed by the rest. For a name
  that starts with an ASCII character this is the upper-case letter of that character
  (or of the letter after a leading separator); for any other first character it is
  what the Unicode database gives, which can be more than one character.
\<close>

theorem camelify_separators:
  "camel_sub s = camel_spec None s
   \<and> (is_sep c \<and> is_ascii_letter d \<longrightarrow>
        camel_sub (xs @ c # d # ys) = camel_sub xs @ upper_char d # camel_sub ys)
   \<and> (is_sep c \<longrightarrow> camel_sub (xs @ [c]) = camel_sub xs @ [c])
   \<and> (is_sep c \<and> \<not> is_ascii_letter d \<longrightarrow>
        camel_sub (xs @ c # d # ys) = camel_sub xs @ c # camel_sub (d # ys))
   \<and> camelify u ''foo__bar'' = ''Foo_Bar''
   \<and> camelify u s = str_upper u (fst (split_first (camel_sub s))) @ snd (split_first (camel_sub s))
   \<and> (is_ascii a \<and> \<not> (is_sep a \<and> t \<noteq> [] \<and> is_ascii_letter (hd t)) \<longrightarrow>
        camelify u (a # t) = upper_char a # camel_sub t)
   \<and> (is_sep c \<and> is_ascii_letter d \<longrightarrow> camelify u (c # d # t) = upper_char d # camel_sub t)
   \<and> (\<not> is_ascii a \<longrightarrow>
        camelify u (a # t) =
          uc_upper u (a # takeWhile is_continuation (camel_sub t))
          @ dropWhile is_continuation (camel_sub t))
   \<and> map upper_char ascii_lowercase = ascii_uppercase"
proof (intro conjI)
  show "camel_sub s = camel_spec None s" by (rule camel_sub_spec)
  show "is_sep c \<and> is_ascii_letter d \<longrightarrow>
        camel_sub (xs @ c # d # ys) = camel_sub xs @ upper_char d # camel_sub ys"
    by (simp add: camel_sub_append is_sep_not_letter)
  show "is_sep c \<longrightarrow> camel_sub (xs @ [c]) = camel_sub xs @ [c]"
    by (simp add: camel_sub_append is_sep_not_letter)
  show "is_sep c \<and> \<not> is_ascii_letter d \<longrightarrow>
        camel_sub (xs @ c # d # ys) = camel_sub xs @ c # camel_sub (d # ys)"
    by (simp add: camel_sub_append is_sep_not_letter)
  show "camelify u ''foo__bar'' = ''Foo_Bar''"
    by code_simp
  show "camelify u s
      = str_upper u (fst (split_first (camel_sub s))) @ snd (split_first (camel_sub s))"
    by (simp add: camelify_def Let_def)
  show "is_ascii a \<and> \<not> (is_sep a \<and> t \<noteq> [] \<and> is_ascii_letter (hd t)) \<longrightarrow>
        camelify u (a # t) = upper_char a # camel_sub t"
  proof
    assume h: "is_ascii a \<and> \<not> (is_sep a \<and> t \<noteq> [] \<and> is_ascii_letter (hd t))"
    then have "camel_sub (a # t) = a # camel_sub t" by (intro camel_sub_keep) simp
    with h show "camelify u (a # t) = upper_char a # camel_sub t"
      by (intro camelify_ascii_first) simp_all
  qed
  show "is_sep c \<and> is_ascii_letter d \<longrightarrow> camelify u (c # d # t) = upper_char d # camel_sub t"
  proof
    assume h: "is_sep c \<and> is_ascii_letter d"
    then have s: "camel_sub (c # d # t) = upper_char d # camel_sub t" by simp
    from h have "is_ascii (upper_char d)"
      by (simp add: upper_char_ascii is_ascii_letter_ascii)
    from camelify_ascii_first [OF s this]
    show "camelify u (c # d # t) = upper_char d # camel_sub t"
      by (simp add: upper_char_idem)
  qed
  show "\<not> is_ascii a \<longrightarrow>
        camelify u (a # t) =
          uc_upper u (a # takeWhile is_continuation (camel_sub t))
          @ dropWhile is_continuation (camel_sub t)"
  proof
    assume h: "\<not> is_ascii a"
    then have "\<not> is_sep a" using is_sep_ascii by blast
    then have "camel_sub (a # t) = a # camel_sub t" by (intro camel_sub_keep) simp
    with h show "camelify u (a # t) =
          uc_upper u (a # takeWhile is_continuation (camel_sub t))
          @ dropWhile is_continuation (camel_sub t)"
      by (simp add: camelify_def Let_def str_upper_def)
  qed
  show "map upper_char ascii_lowercase = ascii_uppercase"
    by (simp add: upper_char_def ascii_lowercase_def ascii_uppercase_def)
qed

theorem camelify_separators_witness:
  "camel_sub ''my-cli_2_'' = camel_spec None ''my-cli_2_''
   \<and> is_sep CHR ''-'' \<and> is_ascii_letter CHR ''c''
   \<and> camel_sub (''my'' @ CHR ''-'' # CHR ''c'' # ''li_2_'') =
       camel_sub ''my'' @ upper_char CHR ''c'' # camel_sub ''li_2_''
   \<and> is_sep CHR ''_'' \<and> \<not> is_ascii_letter CHR ''2''
   \<and> camel_sub (''my-cli'' @ CHR ''_'' # CHR ''2'' # ''_'') =
       camel_sub ''my-cli'' @ CHR ''_'' # camel_sub ''2_''
   \<and> camel_sub (''my-cli'' @ [CHR ''_'']) = camel_sub ''my-cli'' @ ''_''
   \<and> is_ascii CHR ''m''
   \<and> \<not> (is_sep CHR ''m'' \<and> ''y-cli'' \<noteq> [] \<and> is_ascii_letter (hd ''y-cli''))
   \<and> camelify ex_unicode (CHR ''m'' # ''y-cli'') = upper_char CHR ''m'' # camel_sub ''y-cli''
   \<and> camelify ex_unicode (CHR ''-'' # CHR ''c'' # ''li'') = upper_char CHR ''c'' # camel_sub ''li''
   \<and> \<not> is_ascii (CHR 0xC3)
   \<and> camelify ex_unicode (CHR 0xC3 # [CHR 0xA9, CHR ''t'', CHR ''e''])
      = uc_upper ex_unicode (CHR 0xC3 # takeWhile is_continuation (camel_sub [CHR 0xA9, CHR ''t'', CHR ''e'']))
        @ dropWhile is_continuation (camel_sub [CHR 0xA9, CHR ''t'', CHR ''e''])
   \<and> camelify ex_unicode [CHR 0xC3, CHR 0xA9, CHR ''t'', CHR ''e'']
      = [CHR 0xC3, CHR 0x89, CHR ''t'', CHR ''e'']
   \<and> camelify ex_unicode [CHR 0xC3, CHR 0x9F, CHR ''_'', CHR ''a''] = ''SSA''"
proof -
  note t1 = camelify_separators [of "''my-cli_2_''" "CHR ''-''" "CHR ''c''" "''my''" "''li_2_''"
      ex_unicode "CHR ''m''" "''y-cli''"]
  note t2 = camelify_separators [of "''my-cli_2_''" "CHR ''_''" "CHR ''2''" "''my-cli''" "''_''"
      ex_unicode "CHR 0xC3" "[CHR 0xA9, CHR ''t'', CHR ''e'']"]
  note t3 = camelify_separators [of "''my-cli_2_''" "CHR ''-''" "CHR ''c''" "''my''" "''li_2_''"
      ex_unicode "CHR ''m''" "''li''"]
  have h1: "is_sep CHR ''-'' \<and> is_ascii_letter CHR ''c''" by code_simp
  have h2: "is_sep CHR ''_'' \<and> \<not> is_ascii_letter CHR ''2''" by code_simp
  have h3: "is_sep CHR ''_''" using h2 by (rule conjunct1)
  have h4: "is_ascii CHR ''m''" by code_simp
  have h5: "\<not> (is_sep CHR ''m'' \<and> ''y-cli'' \<noteq> [] \<and> is_ascii_letter (hd ''y-cli''))"
    by code_simp
  have h6: "\<not> is_ascii (CHR 0xC3)" by code_simp
  note c1 = t1 [THEN conjunct1]
  note c2 = t1 [THEN conjunct2, THEN conjunct1, THEN mp, OF h1]
  note c3 = t2 [THEN conjunct2, THEN conjunct2, THEN conjunct1, THEN mp, OF h3]
  note c4 = t2 [THEN conjunct2, THEN conjunct2, THEN conjunct2, THEN conjunct1, THEN mp, OF h2]
  note r1 = t1 [THEN conjunct2, THEN conjunct2, THEN conjunct2, THEN conjunct2, THEN conjunct2,
      THEN conjunct2]
  note r2 = t2 [THEN conjunct2, THEN conjunct2, THEN conjunct2, THEN conjunct2, THEN conjunct2,
      THEN conjunct2]
  note r3 = t3 [THEN conjunct2, THEN conjunct2, THEN conjunct2, THEN conjunct2, THEN conjunct2,
      THEN conjunct2]
  note c7 = r1 [THEN conjunct1, THEN mp, OF conjI, OF h4 h5]
  note c8 = r3 [THEN conjunct2, THEN conjunct1, THEN mp, OF h1]
  note c9 = r2 [THEN conjunct2, THEN conjunct2, THEN conjunct1, THEN mp, OF h6]
  have e1: "camelify ex_unicode [CHR 0xC3, CHR 0xA9, CHR ''t'', CHR ''e'']
      = [CHR 0xC3, CHR 0x89, CHR ''t'', CHR ''e'']"
    by code_simp
  have e2: "camelify ex_unicode [CHR 0xC3, CHR 0x9F, CHR ''_'', CHR ''a''] = ''SSA''"
    by code_simp
  show ?thesis
    by (intro conjI c1 c2 c3 c4 h1 [THEN conjunct1] h1 [THEN conjunct2] h3
        h2 [THEN conjunct2] h4 h5 c7 c8 h6 c9 e1 e2)
qed

section \<open>Properties of the file system operations\<close>

lemma read_file_update:
  "read_file (w\<lparr>files := AList.update p s (files w)\<rparr>) q =
     (if q = p then Some s else read_file w q)"
  by (simp add: read_file_def update_conv')

lemma write_text_result:
  assumes "write_text p s w = Inr w'"
  shows "w' = w\<lparr>files := AList.update p s (files w)\<rparr>"
  using assms by (auto simp: write_text_def split: if_splits)

lemma write_text_ok:
  "\<not> is_dir w p \<Longrightarrow> is_dir w (parent p) \<Longrightarrow>
     write_text p s w = Inr (w\<lparr>files := AList.update p s (files w)\<rparr>)"
  by (simp add: write_text_def)

lemma write_text_no_parent:
  "\<not> is_dir w (parent p) \<Longrightarrow> \<exists>e. write_text p s w = Inl e"
  by (simp add: write_text_def)

lemma is_dir_files_update [simp]:
  "is_dir (w\<lparr>files := fs\<rparr>) p = is_dir w p"
  by (simp add: is_dir_def)

lemma is_file_update:
  "is_file (w\<lparr>files := AList.update p s (files w)\<rparr>) p"
  by (simp add: is_file_def read_file_update)

lemma mkdir_parents_files:
  "mkdir_parents p w = Inr w' \<Longrightarrow> files w' = files w \<and> stdout w' = stdout w"
  by (auto simp: mkdir_parents_def split: if_splits)

lemma mkdir_parents_is_dir:
  "mkdir_parents p w = Inr w' \<Longrightarrow> is_dir w' p"
  by (auto simp: mkdir_parents_def is_dir_def split: if_splits)

lemma mkdir_parents_mono:
  "mkdir_parents p w = Inr w' \<Longrightarrow> is_dir w q \<Longrightarrow> is_dir w' q"
  by (auto simp: mkdir_parents_def is_dir_def split: if_splits)

lemma touch_dirs:
  "touch p w = Inr w' \<Longrightarrow> is_dir w' q = is_dir w q"
  by (auto simp: touch_def split: if_splits)

lemma get_settings_model_dir:
  assumes "get_settings st w0 = (Inr st', w)"
  shows "is_dir w (model_dir st) \<and> is_dir w (template_output_dir st)"
  using assms
  by (auto simp: get_settings_def split: sum.splits
      dest: mkdir_parents_is_dir mkdir_parents_mono touch_dirs)

section \<open>Properties of the stub writer\<close>

lemma split_on_no_sep: "sep \<notin> set s \<Longrightarrow> split_on sep s = [s]"
  by (induction s) auto

lemma stub_path_parent:
  assumes "CHR ''/'' \<notin> set (module_stem m)"
  shows "stub_path st m = model_dir st @ [module_stem m @ ''_model.py'']"
    and "parent (stub_path st m) = model_dir st"
proof -
  let ?n = "module_stem m @ ''_model.py''"
  have "CHR ''/'' \<notin> set ?n" using assms by simp
  then have sp: "split_on CHR ''/'' ?n = [?n]" by (rule split_on_no_sep)
  have ne: "?n \<noteq> [] \<and> ?n \<noteq> ''.''" by (cases "module_stem m") auto
  have hd: "hd ?n \<noteq> CHR ''/''" using assms by (cases "module_stem m") auto
  show a: "stub_path st m = model_dir st @ [?n]"
    using sp ne hd by (simp add: stub_path_def path_join_def path_parts_def)
  have "model_dir st @ [?n] \<noteq> [''/'']"
  proof
    assume "model_dir st @ [?n] = [''/'']"
    then have "?n = ''/''" by (cases "model_dir st") auto
    then show False by (cases "module_stem m") auto
  qed
  then show "parent (stub_path st m) = model_dir st"
    using a by (simp add: parent_def)
qed

lemma write_model_stub_existing:
  "path_exists w (stub_path st m) \<Longrightarrow>
     write_model_stub u st m attr vars w = (Inr (stub_path st m), w)"
  by (simp add: write_model_stub_def)

lemma main_write_model_stub_existing:
  "path_exists w (stub_path st m) \<Longrightarrow>
     main_write_model_stub u st m attr vars w = (Inr (stub_path st m), w)"
  by (simp add: main_write_model_stub_def)

lemma write_model_stub_path:
  "write_model_stub u st m attr vars w = (Inr p, w') \<Longrightarrow> p = stub_path st m"
  by (auto simp: write_model_stub_def Let_def split: if_splits sum.splits)

lemma main_write_model_stub_path:
  "main_write_model_stub u st m attr vars w = (Inr p, w') \<Longrightarrow> p = stub_path st m"
  by (auto simp: main_write_model_stub_def Let_def split: if_splits sum.splits)

lemma path_exists_edited:
  "path_exists (w\<lparr>files := AList.update p s (files w)\<rparr>) p"
  by (simp add: path_exists_def is_file_update)

text \<open>
  C1. When the stub path already exists, \<open>write_model_stub\<close> (and the older
  \<open>main_write_model_stub\<close>) returns that path and leaves the whole world, hence the
  file's contents, as it is. So a user's edit of the stub made after a first call is
  still there after a second call, also when the variable set has changed.
\<close>

theorem write_stub_keeps_existing:
  "(path_exists w (stub_path st m) \<longrightarrow>
      write_model_stub u st m attr vars w = (Inr (stub_path st m), w)
      \<and> main_write_model_stub u st m attr vars w = (Inr (stub_path st m), w))
   \<and> (write_model_stub u st m attr vars w = (Inr p, w1) \<longrightarrow>
        write_model_stub u st m attr vars' (w1\<lparr>files := AList.update p edited (files w1)\<rparr>)
          = (Inr p, w1\<lparr>files := AList.update p edited (files w1)\<rparr>)
        \<and> read_file (snd (write_model_stub u st m attr vars'
              (w1\<lparr>files := AList.update p edited (files w1)\<rparr>))) p = Some edited)
   \<and> (main_write_model_stub u st m attr vars w = (Inr p, w1) \<longrightarrow>
        main_write_model_stub u st m attr vars' (w1\<lparr>files := AList.update p edited (files w1)\<rparr>)
          = (Inr p, w1\<lparr>files := AList.update p edited (files w1)\<rparr>))"
proof (intro conjI impI)
  assume "path_exists w (stub_path st m)"
  then show "write_model_stub u st m attr vars w = (Inr (stub_path st m), w)"
    by (rule write_model_stub_existing)
next
  assume "path_exists w (stub_path st m)"
  then show "main_write_model_stub u st m attr vars w = (Inr (stub_path st m), w)"
    by (rule main_write_model_stub_existing)
next
  assume "write_model_stub u st m attr vars w = (Inr p, w1)"
  then have p: "p = stub_path st m" by (rule write_model_stub_path)
  show a: "write_model_stub u st m attr vars' (w1\<lparr>files := AList.update p edited (files w1)\<rparr>)
          = (Inr p, w1\<lparr>files := AList.update p edited (files w1)\<rparr>)"
    unfolding p by (rule write_model_stub_existing) (rule path_exists_edited)
  show "read_file (snd (write_model_stub u st m attr vars'
              (w1\<lparr>files := AList.update p edited (files w1)\<rparr>))) p = Some edited"
    unfolding a by (simp add: read_file_update)
next
  assume "main_write_model_stub u st m attr vars w = (Inr p, w1)"
  then have p: "p = stub_path st m" by (rule main_write_model_stub_path)
  show "main_write_model_stub u st m attr vars' (w1\<lparr>files := AList.update p edited (files w1)\<rparr>)
          = (Inr p, w1\<lparr>files := AList.update p edited (files w1)\<rparr>)"
    unfolding p by (rule main_write_model_stub_existing) (rule path_exists_edited)
qed

lemma ex_stub_path:
  "stub_path ex_settings (ex_module ''greeting'' t) = [''templateer'', ''models'', ''greeting_model.py'']"
  by (simp add: stub_path_def ex_settings_def ex_module_def module_stem_def path_join_def
      path_parts_def)

lemma ex_get_settings: "get_settings ex_settings empty_world = (Inr ex_settings, ex_world)"
  by (simp add: get_settings_def ex_settings_def empty_world_def ex_world_def mkdir_parents_def
      touch_def is_dir_def is_file_def read_file_def ancestors_def path_exists_def path_join_def
      path_parts_def parent_def upt_rec)

theorem write_stub_keeps_existing_witness:
  "path_exists
     (ex_world\<lparr>files := AList.update [''templateer'', ''models'', ''greeting_model.py'']
        ''# my edit'' (files ex_world)\<rparr>)
     (stub_path ex_settings (ex_module ''greeting'' ''Hello {{ name }}!''))
   \<and> write_model_stub ex_unicode ex_settings (ex_module ''greeting'' ''Hello {{ name }}!'') ''TEMPLATE''
        {''name''} ex_world
      = (Inr [''templateer'', ''models'', ''greeting_model.py''],
         ex_world\<lparr>files := AList.update [''templateer'', ''models'', ''greeting_model.py'']
           (stub_text ex_unicode (ex_module ''greeting'' ''Hello {{ name }}!'') ''TEMPLATE'' {''name''})
           (files ex_world)\<rparr>)
   \<and> read_file
        (snd (write_model_stub ex_unicode ex_settings (ex_module ''greeting'' ''Hello {{ name }}!'')
           ''TEMPLATE'' {''name'', ''title''}
           (ex_world\<lparr>files := AList.update [''templateer'', ''models'', ''greeting_model.py'']
              (stub_text ex_unicode (ex_module ''greeting'' ''Hello {{ name }}!'') ''TEMPLATE'' {''name''})
              (files ex_world)\<rparr>
            \<lparr>files := AList.update [''templateer'', ''models'', ''greeting_model.py'']
              ''# my edit''
              (files (ex_world\<lparr>files := AList.update
                 [''templateer'', ''models'', ''greeting_model.py'']
                 (stub_text ex_unicode (ex_module ''greeting'' ''Hello {{ name }}!'') ''TEMPLATE'' {''name''})
                 (files ex_world)\<rparr>))\<rparr>)))
        [''templateer'', ''models'', ''greeting_model.py'']
      = Some ''# my edit''"
proof -
  let ?m = "ex_module ''greeting'' ''Hello {{ name }}!''"
  let ?p = "[''templateer'', ''models'', ''greeting_model.py'']"
  let ?w1 = "ex_world\<lparr>files := AList.update ?p (stub_text ex_unicode ?m ''TEMPLATE'' {''name''})
               (files ex_world)\<rparr>"
  have sp: "stub_path ex_settings ?m = ?p" by (rule ex_stub_path)
  have h1: "path_exists (ex_world\<lparr>files := AList.update ?p ''# my edit'' (files ex_world)\<rparr>)
              (stub_path ex_settings ?m)"
    unfolding sp by (rule path_exists_edited)
  have h2: "write_model_stub ex_unicode ex_settings ?m ''TEMPLATE'' {''name''} ex_world = (Inr ?p, ?w1)"
    by (simp add: write_model_stub_def Let_def sp write_text_def path_exists_def is_file_def is_dir_def
        read_file_def parent_def ex_world_def)
  note t = write_stub_keeps_existing [of ex_world ex_settings ?m ex_unicode "''TEMPLATE''"
      "{''name''}" ?p ?w1
      "{''name'', ''title''}" "''# my edit''"]
  note c = t [THEN conjunct2, THEN conjunct1, THEN mp, OF h2, THEN conjunct2]
  show ?thesis by (intro conjI h1 h2 c)
qed

lemma write_model_stub_new:
  assumes "\<not> path_exists w (stub_path st m)" and "is_dir w (parent (stub_path st m))"
  shows "write_model_stub u st m attr vars w =
           (Inr (stub_path st m),
            w\<lparr>files := AList.update (stub_path st m) (stub_text u m attr vars) (files w)\<rparr>)"
  using assms by (simp add: write_model_stub_def Let_def write_text_def path_exists_def)

lemma write_model_stub_no_dir:
  assumes "\<not> path_exists w (stub_path st m)" and "\<not> is_dir w (parent (stub_path st m))"
  shows "write_model_stub u st m attr vars w = (Inl (no_parent_error w (stub_path st m)), w)"
  using assms by (simp add: write_model_stub_def Let_def write_text_def path_exists_def)

lemma write_model_stub_dirs:
  "dirs (snd (write_model_stub u st m attr vars w)) = dirs w
   \<and> stdout (snd (write_model_stub u st m attr vars w)) = stdout w"
  by (auto simp: write_model_stub_def Let_def write_text_def split: sum.splits)

text \<open>
  C8, as the code has it. \<open>write_model_stub\<close> creates no directory: the model
  directory is made by \<open>get_settings\<close>. For a stub path that does not exist yet, with
  its directory present (as it is after \<open>get_settings\<close> for a module stem without a
  slash), the call writes exactly one file, the stub, and changes no other file and no
  directory; with the directory missing it raises and the world stays as it was.
\<close>

theorem write_stub_one_file:
  assumes "\<not> path_exists w (stub_path st m)"
  shows "(is_dir w (parent (stub_path st m)) \<longrightarrow>
            fst (write_model_stub u st m attr vars w) = Inr (stub_path st m)
            \<and> (\<forall>q. read_file (snd (write_model_stub u st m attr vars w)) q =
                   (if q = stub_path st m then Some (stub_text u m attr vars) else read_file w q)))
         \<and> (\<not> is_dir w (parent (stub_path st m)) \<longrightarrow>
            write_model_stub u st m attr vars w = (Inl (no_parent_error w (stub_path st m)), w))
         \<and> dirs (snd (write_model_stub u st m attr vars w)) = dirs w
         \<and> (get_settings st w0 = (Inr st, w) \<and> CHR ''/'' \<notin> set (module_stem m) \<longrightarrow>
            is_dir w (parent (stub_path st m)))"
proof (intro conjI impI allI)
  assume d: "is_dir w (parent (stub_path st m))"
  note n = write_model_stub_new [OF assms d, of u attr vars]
  show "fst (write_model_stub u st m attr vars w) = Inr (stub_path st m)"
    by (simp add: n)
  show "read_file (snd (write_model_stub u st m attr vars w)) q =
          (if q = stub_path st m then Some (stub_text u m attr vars) else read_file w q)" for q
    by (simp add: n read_file_update)
next
  assume "\<not> is_dir w (parent (stub_path st m))"
  with assms show "write_model_stub u st m attr vars w = (Inl (no_parent_error w (stub_path st m)), w)"
    by (rule write_model_stub_no_dir)
next
  show "dirs (snd (write_model_stub u st m attr vars w)) = dirs w"
    by (simp add: write_model_stub_dirs)
next
  assume a: "get_settings st w0 = (Inr st, w) \<and> CHR ''/'' \<notin> set (module_stem m)"
  then have "is_dir w (model_dir st)" using get_settings_model_dir by blast
  moreover have "parent (stub_path st m) = model_dir st"
    using a by (intro stub_path_parent(2)) simp
  ultimately show "is_dir w (parent (stub_path st m))" by simp
qed

lemma ex_module_stem: "module_stem (ex_module ''greeting'' t) = ''greeting''"
  by (simp add: module_stem_def ex_module_def)

lemma ex_stub_absent:
  "\<not> path_exists ex_world [''templateer'', ''models'', ''greeting_model.py'']"
  by (simp add: path_exists_def is_file_def is_dir_def read_file_def ex_world_def)

theorem write_stub_one_file_witness:
  "\<not> path_exists ex_world (stub_path ex_settings (ex_module ''greeting'' ''Hello {{ name }}!''))
   \<and> get_settings ex_settings empty_world = (Inr ex_settings, ex_world)
   \<and> CHR ''/'' \<notin> set (module_stem (ex_module ''greeting'' ''Hello {{ name }}!''))
   \<and> is_dir ex_world (parent (stub_path ex_settings (ex_module ''greeting'' ''Hello {{ name }}!'')))
   \<and> fst (write_model_stub ex_unicode ex_settings (ex_module ''greeting'' ''Hello {{ name }}!'') ''TEMPLATE''
        {''name''} ex_world)
      = Inr (stub_path ex_settings (ex_module ''greeting'' ''Hello {{ name }}!''))
   \<and> dirs (snd (write_model_stub ex_unicode ex_settings (ex_module ''greeting'' ''Hello {{ name }}!'')
        ''TEMPLATE'' {''name''} ex_world)) = dirs ex_world
   \<and> \<not> path_exists empty_world
        (stub_path ex_settings (ex_module ''greeting'' ''Hello {{ name }}!''))
   \<and> \<not> is_dir empty_world
        (parent (stub_path ex_settings (ex_module ''greeting'' ''Hello {{ name }}!'')))
   \<and> write_model_stub ex_unicode ex_settings (ex_module ''greeting'' ''Hello {{ name }}!'') ''TEMPLATE''
        {''name''} empty_world
      = (Inl (no_parent_error empty_world
           (stub_path ex_settings (ex_module ''greeting'' ''Hello {{ name }}!''))), empty_world)"
proof -
  let ?m = "ex_module ''greeting'' ''Hello {{ name }}!''"
  have h1: "\<not> path_exists ex_world (stub_path ex_settings ?m)"
    unfolding ex_stub_path by (rule ex_stub_absent)
  have h2: "get_settings ex_settings empty_world = (Inr ex_settings, ex_world)"
    by (rule ex_get_settings)
  have h3: "CHR ''/'' \<notin> set (module_stem ?m)"
    unfolding ex_module_stem by simp
  have h4: "\<not> path_exists empty_world (stub_path ex_settings ?m)"
    unfolding ex_stub_path
    by (simp add: path_exists_def is_file_def is_dir_def read_file_def empty_world_def)
  have h5: "\<not> is_dir empty_world (parent (stub_path ex_settings ?m))"
    unfolding ex_stub_path by (simp add: is_dir_def parent_def empty_world_def)
  note t = write_stub_one_file [OF h1, of ex_unicode "''TEMPLATE''" "{''name''}" empty_world]
  note v = write_stub_one_file [OF h4, of ex_unicode "''TEMPLATE''" "{''name''}" empty_world]
  note d = t [THEN conjunct2, THEN conjunct2, THEN conjunct2, THEN mp, OF conjI, OF h2 h3]
  note c1 = t [THEN conjunct1, THEN mp, OF d, THEN conjunct1]
  note c3 = t [THEN conjunct2, THEN conjunct2, THEN conjunct1]
  note c2 = v [THEN conjunct2, THEN conjunct1, THEN mp, OF h5]
  show ?thesis by (intro conjI h1 h2 h3 d c1 c3 h4 h5 c2)
qed

text \<open>
  C8 as stated fails: on a world without the model directory the call creates no
  parent directory and writes no file; it raises FileNotFoundError.
\<close>

theorem write_stub_no_mkdir_counterexample:
  "\<not> path_exists empty_world (stub_path ex_settings (ex_module ''greeting'' ''Hello {{ name }}!''))
   \<and> write_model_stub ex_unicode ex_settings (ex_module ''greeting'' ''Hello {{ name }}!'') ''TEMPLATE''
        {''name''} empty_world
      = (Inl FileNotFoundError, \<lparr>files = [], dirs = [], stdout = []\<rparr>)"
  unfolding ex_stub_path
  by (simp add: write_model_stub_def Let_def ex_stub_path write_text_def path_exists_def
      is_file_def is_dir_def read_file_def parent_def empty_world_def no_parent_error_def
      ancestors_def upt_rec)

section \<open>The text of the stub\<close>

lemma stub_text_no_field:
  "split_on CHR 0x0A (stub_text u (ex_module ''greeting'' ''hello world'') ''TEMPLATE'' {})
     = expected_stub_lines u (ex_module ''greeting'' ''hello world'') ''TEMPLATE'' {}"
  by code_simp

lemma stub_text_one_field:
  "split_on CHR 0x0A (stub_text u (ex_module ''greeting'' ''Hello {{ name }}!'') ''TEMPLATE'' {''name''})
     = expected_stub_lines u (ex_module ''greeting'' ''Hello {{ name }}!'') ''TEMPLATE'' {''name''}"
  by code_simp

text \<open>
  C2 fails on the code of generator.py as soon as a template has two variables. The
  field lines are joined with newlines and put into the f-string before
  \<^verbatim>\<open>textwrap.dedent\<close> runs: the second field line has four leading blanks only, the
  common margin is four blanks instead of twelve, and in the stub that is written the
  imports and the class statement are indented by eight blanks while the second field
  stands in column 0, outside the class.
\<close>

theorem stub_text_two_fields_misindented:
  \<open>split_on CHR 0x0A
     (stub_text u (ex_module ''greeting'' ''{{ title }} {{ name }}'') ''TEMPLATE'' {''name'', ''title''})
   = [''        from __future__ import annotations'',
      [],
      ''        from typing import Any'',
      [],
      ''        from templateer import TemplateModel'',
      [],
      [],
      ''        class GreetingTemplate(TemplateModel):'',
      ''            """Auto-generated from .templateer/greeting.py"""'',
      ''            __template__ = "greeting.TEMPLATE"'',
      [],
      ''            name: Any | None = None'',
      ''title: Any | None = None'',
      []]
   \<and> split_on CHR 0x0A
       (stub_text u (ex_module ''greeting'' ''{{ title }} {{ name }}'') ''TEMPLATE'' {''name'', ''title''})
     \<noteq> expected_stub_lines u (ex_module ''greeting'' ''{{ title }} {{ name }}'') ''TEMPLATE''
         {''name'', ''title''}
   \<and> fst (write_model_stub u ex_settings (ex_module ''greeting'' ''{{ title }} {{ name }}'')
        ''TEMPLATE'' {''name'', ''title''} ex_world)
     = Inr [''templateer'', ''models'', ''greeting_model.py'']
   \<and> read_file
       (snd (write_model_stub u ex_settings (ex_module ''greeting'' ''{{ title }} {{ name }}'')
          ''TEMPLATE'' {''name'', ''title''} ex_world))
       [''templateer'', ''models'', ''greeting_model.py'']
     = Some (stub_text u (ex_module ''greeting'' ''{{ title }} {{ name }}'') ''TEMPLATE''
         {''name'', ''title''})\<close>
proof (intro conjI)
  let ?m = "ex_module ''greeting'' ''{{ title }} {{ name }}''"
  show \<open>split_on CHR 0x0A (stub_text u ?m ''TEMPLATE'' {''name'', ''title''})
   = [''        from __future__ import annotations'',
      [],
      ''        from typing import Any'',
      [],
      ''        from templateer import TemplateModel'',
      [],
      [],
      ''        class GreetingTemplate(TemplateModel):'',
      ''            """Auto-generated from .templateer/greeting.py"""'',
      ''            __template__ = "greeting.TEMPLATE"'',
      [],
      ''            name: Any | None = None'',
      ''title: Any | None = None'',
      []]\<close>
    by code_simp
  show "split_on CHR 0x0A (stub_text u ?m ''TEMPLATE'' {''name'', ''title''})
     \<noteq> expected_stub_lines u ?m ''TEMPLATE'' {''name'', ''title''}"
    by code_simp
  have absent: "\<not> path_exists ex_world (stub_path ex_settings ?m)"
    unfolding ex_stub_path by (rule ex_stub_absent)
  have dir: "is_dir ex_world (parent (stub_path ex_settings ?m))"
    unfolding ex_stub_path by (simp add: is_dir_def parent_def ex_world_def)
  note n = write_model_stub_new [OF absent dir, of u "''TEMPLATE''" "{''name'', ''title''}"]
  show "fst (write_model_stub u ex_settings ?m ''TEMPLATE'' {''name'', ''title''} ex_world)
     = Inr [''templateer'', ''models'', ''greeting_model.py'']"
    by (simp add: n ex_stub_path)
  show "read_file (snd (write_model_stub u ex_settings ?m ''TEMPLATE'' {''name'', ''title''} ex_world))
       [''templateer'', ''models'', ''greeting_model.py'']
     = Some (stub_text u ?m ''TEMPLATE'' {''name'', ''title''})"
    by (simp add: n ex_stub_path read_file_update)
qed

text \<open>
  The older writer of main.py starts its f-string in column 0 and gives the class and
  both fields their places.
\<close>

lemma main_stub_text_two_fields:
  \<open>split_on CHR 0x0A
     (main_stub_text u (ex_module ''greeting'' ''{{ title }} {{ name }}'') ''TEMPLATE''
        {''name'', ''title''})
   = [''from __future__ import annotations'',
      [],
      ''from typing import Any'',
      ''from templateer import TemplateModel'',
      [],
      [],
      ''class GreetingTemplate(TemplateModel):'',
      ''    """Auto'' @ [CHR 0xE2, CHR 0x80, CHR 0x91] @ ''generated from .templateer/greeting.py"""'',
      ''    __template__ = "greeting.TEMPLATE"'',
      [],
      ''    name: Any | None = None'',
      ''    title: Any | None = None'',
      []]\<close>
  by code_simp

section \<open>Properties of generate\<close>

lemma set_ancestors: "set (ancestors p) = {take n p | n. 1 \<le> n \<and> n < length p}"
  by (auto simp: ancestors_def)

lemma ancestors_butlast: "set (ancestors (butlast p)) \<subseteq> set (ancestors p)"
proof
  fix q assume "q \<in> set (ancestors (butlast p))"
  then obtain n where n: "q = take n (butlast p)" "1 \<le> n" "n < length p - 1"
    by (auto simp: set_ancestors)
  then have "q = take n p" by (simp add: take_butlast)
  moreover from n have "1 \<le> n \<and> n < length p" by simp
  ultimately show "q \<in> set (ancestors p)" unfolding set_ancestors by blast
qed

lemma butlast_in_ancestors: "2 \<le> length p \<Longrightarrow> butlast p \<in> set (ancestors p)"
  by (auto simp: set_ancestors butlast_conv_take intro!: exI [of _ "length p - 1"])

lemma ancestors_shorter: "q \<in> set (ancestors p) \<Longrightarrow> length q < length p"
  by (auto simp: set_ancestors)

lemma mkdir_parent_ok:
  assumes "\<not> list_ex (is_file w) (ancestors p)"
  shows "\<exists>w1. mkdir_parents (parent p) w = Inr w1"
proof (cases "is_dir w (parent p)")
  case True
  then show ?thesis by (simp add: mkdir_parents_def)
next
  case False
  then have pp: "parent p = butlast p" and len: "2 \<le> length p"
    by (auto simp: parent_def is_dir_def split: if_splits) (cases p rule: rev_cases; cases "butlast p"; simp)
  from assms have nf: "\<forall>q\<in>set (ancestors p). \<not> is_file w q"
    by (simp add: list_ex_iff)
  with ancestors_butlast [of p] have "\<not> list_ex (is_file w) (ancestors (butlast p))"
    by (auto simp: list_ex_iff)
  moreover from nf butlast_in_ancestors [OF len] have "\<not> is_file w (butlast p)" by blast
  ultimately show ?thesis using False by (simp add: mkdir_parents_def pp)
qed

lemma mkdir_parent_keeps_target:
  assumes "mkdir_parents (parent p) w = Inr w1" and "\<not> is_dir w p"
  shows "\<not> is_dir w1 p"
proof -
  from assms(2) have ne: "p \<noteq> []" "p \<noteq> [''/'']" by (auto simp: is_dir_def)
  then have pp: "parent p = butlast p" by (simp add: parent_def)
  have "p \<notin> set (ancestors (butlast p) @ [butlast p])"
  proof
    assume "p \<in> set (ancestors (butlast p) @ [butlast p])"
    then consider "p \<in> set (ancestors (butlast p))" | "p = butlast p" by auto
    then show False
    proof cases
      case 1
      then have "length p < length (butlast p)" by (rule ancestors_shorter)
      then show False by simp
    next
      case 2
      then have "length p = length p - 1" by (metis length_butlast)
      moreover have "0 < length p" using ne by simp
      ultimately show False by arith
    qed
  qed
  with assms ne show ?thesis
    by (auto simp: mkdir_parents_def pp is_dir_def split: if_splits)
qed


lemma generate_no_write:
  "render eng mods inst = Inr code \<Longrightarrow> generate u eng mods st inst False w = (Inr code, w)"
  by (simp add: generate_def)

lemma generate_write:
  assumes r: "render eng mods inst = Inr code"
    and nd: "\<not> is_dir w (output_path u st inst)"
    and nf: "\<not> list_ex (is_file w) (ancestors (output_path u st inst))"
  shows "\<exists>w1. mkdir_parents (parent (output_path u st inst)) w = Inr w1
           \<and> generate u eng mods st inst True w =
               (Inr code, w1\<lparr>files := AList.update (output_path u st inst) code (files w1)\<rparr>)"
proof -
  from mkdir_parent_ok [OF nf] obtain w1
    where m: "mkdir_parents (parent (output_path u st inst)) w = Inr w1" by blast
  have d: "is_dir w1 (parent (output_path u st inst))" using m by (rule mkdir_parents_is_dir)
  have t: "\<not> is_dir w1 (output_path u st inst)" using m nd by (rule mkdir_parent_keeps_target)
  have "generate u eng mods st inst True w =
          (Inr code, w1\<lparr>files := AList.update (output_path u st inst) code (files w1)\<rparr>)"
    by (simp add: generate_def r m write_text_ok [OF t d])
  with m show ?thesis by blast
qed

lemma removesuffix_ascii: "list_all is_ascii s \<Longrightarrow> list_all is_ascii (removesuffix suf s)"
  by (auto simp: removesuffix_def list_all_iff dest: in_set_takeD)

lemma generate_written:
  assumes r: "render eng mods inst = Inr code" and c: "can_write w (output_path u st inst)"
  shows "fst (generate u eng mods st inst True w) = Inr code
    \<and> read_file (snd (generate u eng mods st inst True w)) (output_path u st inst) = Some code
    \<and> is_dir (snd (generate u eng mods st inst True w)) (parent (output_path u st inst))"
proof -
  from c have nd: "\<not> is_dir w (output_path u st inst)"
    and nf: "\<not> list_ex (is_file w) (ancestors (output_path u st inst))"
    by (simp_all add: can_write_def)
  from generate_write [OF r nd nf] obtain w1
    where m: "mkdir_parents (parent (output_path u st inst)) w = Inr w1"
      and g: "generate u eng mods st inst True w =
               (Inr code, w1\<lparr>files := AList.update (output_path u st inst) code (files w1)\<rparr>)"
    by blast
  show ?thesis
    using mkdir_parents_is_dir [OF m] by (simp add: g read_file_update)
qed

text \<open>
  C3, as the code has it. \<open>generate\<close> returns the string \<open>render\<close> produces. With
  \<open>write\<close> false the world is unchanged. With \<open>write\<close> true the string is written,
  whatever the path held before, and the directory of the path exists afterwards. The
  path is the output directory joined with the override \<^verbatim>\<open>__output__\<close> when that is a
  non-empty string, and joined with the class name without the suffix \<^verbatim>\<open>Template\<close>,
  lower-cased, and \<^verbatim>\<open>.py\<close> when the override is \<^verbatim>\<open>None\<close> or empty. Lower-casing an
  ASCII name is the map \<open>lower_char\<close>.
\<close>

theorem generate_writes_below_output_dir:
  assumes "render eng mods inst = Inr code"
  shows "generate u eng mods st inst False w = (Inr code, w)
    \<and> (tm_output inst = Some out \<and> out \<noteq> []
         \<and> can_write w (path_join (template_output_dir st) out)
        \<longrightarrow> fst (generate u eng mods st inst True w) = Inr code
          \<and> read_file (snd (generate u eng mods st inst True w))
               (path_join (template_output_dir st) out) = Some code
          \<and> is_dir (snd (generate u eng mods st inst True w))
               (parent (path_join (template_output_dir st) out)))
    \<and> ((tm_output inst = None \<or> tm_output inst = Some [])
         \<and> can_write w (path_join (template_output_dir st)
               (str_lower u (removesuffix ''Template'' (tm_class_name inst)) @ ''.py''))
        \<longrightarrow> fst (generate u eng mods st inst True w) = Inr code
          \<and> read_file (snd (generate u eng mods st inst True w))
               (path_join (template_output_dir st)
                  (str_lower u (removesuffix ''Template'' (tm_class_name inst)) @ ''.py''))
             = Some code
          \<and> is_dir (snd (generate u eng mods st inst True w))
               (parent (path_join (template_output_dir st)
                  (str_lower u (removesuffix ''Template'' (tm_class_name inst)) @ ''.py''))))
    \<and> (list_all is_ascii (tm_class_name inst)
        \<longrightarrow> str_lower u (removesuffix ''Template'' (tm_class_name inst))
            = map lower_char (removesuffix ''Template'' (tm_class_name inst)))"
proof (intro conjI impI)
  show "generate u eng mods st inst False w = (Inr code, w)"
    using assms by (rule generate_no_write)
next
  assume h: "tm_output inst = Some out \<and> out \<noteq> []
    \<and> can_write w (path_join (template_output_dir st) out)"
  then have p: "output_path u st inst = path_join (template_output_dir st) out"
    by (simp add: output_path_def output_filename_def)
  with h have "can_write w (output_path u st inst)" by simp
  from generate_written [OF assms this]
  show "fst (generate u eng mods st inst True w) = Inr code"
    and "read_file (snd (generate u eng mods st inst True w))
           (path_join (template_output_dir st) out) = Some code"
    and "is_dir (snd (generate u eng mods st inst True w))
           (parent (path_join (template_output_dir st) out))"
    by (simp_all add: p)
next
  let ?n = "str_lower u (removesuffix ''Template'' (tm_class_name inst)) @ ''.py''"
  assume h: "(tm_output inst = None \<or> tm_output inst = Some [])
    \<and> can_write w (path_join (template_output_dir st) ?n)"
  then have p: "output_path u st inst = path_join (template_output_dir st) ?n"
    by (auto simp: output_path_def output_filename_def)
  with h have "can_write w (output_path u st inst)" by simp
  from generate_written [OF assms this]
  show "fst (generate u eng mods st inst True w) = Inr code"
    and "read_file (snd (generate u eng mods st inst True w))
           (path_join (template_output_dir st) ?n) = Some code"
    and "is_dir (snd (generate u eng mods st inst True w))
           (parent (path_join (template_output_dir st) ?n))"
    by (simp_all add: p)
next
  assume "list_all is_ascii (tm_class_name inst)"
  then have "list_all is_ascii (removesuffix ''Template'' (tm_class_name inst))"
    by (rule removesuffix_ascii)
  then show "str_lower u (removesuffix ''Template'' (tm_class_name inst))
      = map lower_char (removesuffix ''Template'' (tm_class_name inst))"
    by (simp add: str_lower_def)
qed

lemma ex_template_str:
  "template_str ex_modules (ex_instance bindings) = Inr ''Hello {{ name }}!''"
  by (simp add: template_str_def rpartition_def ex_instance_def ex_modules_def ex_module_def)

lemma ex_parse:
  "ref_parse jinja_env ''Hello {{ name }}!''
     = Inr [TemplateData ''Hello '', Output (Name ''name''), TemplateData ''!'']"
  by code_simp

lemma ex_render:
  "render ref_engine ex_modules (ex_instance [''name'' \<mapsto> ''Ada'']) = Inr ''Hello Ada!''"
  by (simp add: render_def ex_template_str ref_engine_def ex_parse) (simp add: ex_instance_def)

lemma ex_output_path:
  "output_path ex_unicode ex_settings (ex_instance bindings) = [''TEMPLATE_DIR'', ''greeting.py'']"
  by code_simp

lemma ex_render_custom: "render ref_engine ex_modules ex_custom = Inr ''Hello Ada!''"
  by code_simp

theorem generate_writes_below_output_dir_witness:
  "render ref_engine ex_modules ex_custom = Inr ''Hello Ada!''
   \<and> generate ex_unicode ref_engine ex_modules ex_settings ex_custom False ex_world
      = (Inr ''Hello Ada!'', ex_world)
   \<and> tm_output ex_custom = Some ''custom.py'' \<and> ''custom.py'' \<noteq> []
   \<and> can_write ex_world (path_join (template_output_dir ex_settings) ''custom.py'')
   \<and> fst (generate ex_unicode ref_engine ex_modules ex_settings ex_custom True ex_world)
      = Inr ''Hello Ada!''
   \<and> read_file (snd (generate ex_unicode ref_engine ex_modules ex_settings ex_custom True ex_world))
        (path_join (template_output_dir ex_settings) ''custom.py'') = Some ''Hello Ada!''
   \<and> render ref_engine ex_modules (ex_instance [''name'' \<mapsto> ''Ada'']) = Inr ''Hello Ada!''
   \<and> tm_output (ex_instance [''name'' \<mapsto> ''Ada'']) = None
   \<and> can_write
        (ex_world\<lparr>files := AList.update [''TEMPLATE_DIR'', ''greeting.py''] ''# old''
           (files ex_world)\<rparr>)
        (path_join (template_output_dir ex_settings)
           (str_lower ex_unicode
              (removesuffix ''Template'' (tm_class_name (ex_instance [''name'' \<mapsto> ''Ada''])))
            @ ''.py''))
   \<and> read_file
        (ex_world\<lparr>files := AList.update [''TEMPLATE_DIR'', ''greeting.py''] ''# old''
           (files ex_world)\<rparr>)
        [''TEMPLATE_DIR'', ''greeting.py''] = Some ''# old''
   \<and> read_file
        (snd (generate ex_unicode ref_engine ex_modules ex_settings
           (ex_instance [''name'' \<mapsto> ''Ada'']) True
           (ex_world\<lparr>files := AList.update [''TEMPLATE_DIR'', ''greeting.py''] ''# old''
              (files ex_world)\<rparr>)))
        (path_join (template_output_dir ex_settings)
           (str_lower ex_unicode
              (removesuffix ''Template'' (tm_class_name (ex_instance [''name'' \<mapsto> ''Ada''])))
            @ ''.py''))
      = Some ''Hello Ada!''
   \<and> path_join (template_output_dir ex_settings)
        (str_lower ex_unicode
           (removesuffix ''Template'' (tm_class_name (ex_instance [''name'' \<mapsto> ''Ada''])))
         @ ''.py'')
      = [''TEMPLATE_DIR'', ''greeting.py'']
   \<and> list_all is_ascii (tm_class_name (ex_instance [''name'' \<mapsto> ''Ada'']))
   \<and> str_lower ex_unicode
        (removesuffix ''Template'' (tm_class_name (ex_instance [''name'' \<mapsto> ''Ada''])))
      = map lower_char
          (removesuffix ''Template'' (tm_class_name (ex_instance [''name'' \<mapsto> ''Ada''])))"
proof -
  let ?i = "ex_instance [''name'' \<mapsto> ''Ada'']"
  let ?w = "ex_world\<lparr>files := AList.update [''TEMPLATE_DIR'', ''greeting.py''] ''# old''
              (files ex_world)\<rparr>"
  let ?n = "str_lower ex_unicode (removesuffix ''Template'' (tm_class_name ?i)) @ ''.py''"
  have o1: "tm_output ex_custom = Some ''custom.py''" by (simp add: ex_custom_def)
  have n1: "''custom.py'' \<noteq> []" by simp
  have w1: "can_write ex_world (path_join (template_output_dir ex_settings) ''custom.py'')"
    by code_simp
  have o2: "tm_output ?i = None" by (simp add: ex_instance_def)
  have pn: "path_join (template_output_dir ex_settings) ?n = [''TEMPLATE_DIR'', ''greeting.py'']"
    by code_simp
  have w2: "can_write ?w (path_join (template_output_dir ex_settings) ?n)"
    unfolding pn by code_simp
  have old: "read_file ?w [''TEMPLATE_DIR'', ''greeting.py''] = Some ''# old''"
    by (simp add: read_file_update)
  have asc: "list_all is_ascii (tm_class_name ?i)" by code_simp
  note t1 = generate_writes_below_output_dir [OF ex_render_custom, of ex_unicode ex_settings
      ex_world "''custom.py''"]
  note t2 = generate_writes_below_output_dir [OF ex_render, of ex_unicode ex_settings ?w
      "''custom.py''"]
  note a1 = t1 [THEN conjunct1]
  note a2 = t1 [THEN conjunct2, THEN conjunct1, THEN mp, OF conjI, OF o1 conjI, OF n1 w1]
  note b3 = t2 [THEN conjunct2, THEN conjunct2, THEN conjunct1, THEN mp, OF conjI,
      OF disjI1 w2, OF o2]
  note b4 = t2 [THEN conjunct2, THEN conjunct2, THEN conjunct2, THEN mp, OF asc]
  show ?thesis
    by (intro conjI ex_render_custom a1 o1 n1 w1 a2 [THEN conjunct1]
        a2 [THEN conjunct2, THEN conjunct1] ex_render o2 w2 old
        b3 [THEN conjunct2, THEN conjunct1] pn asc b4)
qed

text \<open>
  C3 as stated fails: with the override \<^verbatim>\<open>__output__ = "custom.py"\<close> nothing is written
  at the path \<^verbatim>\<open>custom.py\<close>; the file is \<^verbatim>\<open>TEMPLATE_DIR/custom.py\<close>. And an override that
  is set to the empty string is passed over for the name made from the class.
\<close>

theorem generate_override_path_counterexample:
  "tm_output ex_custom = Some ''custom.py''
   \<and> fst (generate ex_unicode ref_engine ex_modules ex_settings ex_custom True ex_world)
      = Inr ''Hello Ada!''
   \<and> read_file (snd (generate ex_unicode ref_engine ex_modules ex_settings ex_custom True ex_world))
        [''custom.py''] = None
   \<and> read_file (snd (generate ex_unicode ref_engine ex_modules ex_settings ex_custom True ex_world))
        [''TEMPLATE_DIR'', ''custom.py''] = Some ''Hello Ada!''
   \<and> tm_output (ex_custom\<lparr>tm_output := Some []\<rparr>) = Some []
   \<and> read_file
        (snd (generate ex_unicode ref_engine ex_modules ex_settings
           (ex_custom\<lparr>tm_output := Some []\<rparr>) True ex_world))
        [''TEMPLATE_DIR'', ''greeting.py''] = Some ''Hello Ada!''"
  by code_simp

section \<open>Properties of the reference engine\<close>














section \<open>Properties of render\<close>












section \<open>Properties of the discovery pass\<close>

lemma autogen_loop_append:
  "autogen_loop u eng loader st verbose (xs @ ys) g w =
     (case autogen_loop u eng loader st verbose xs g w of
        (Inl e, w') \<Rightarrow> (Inl e, w')
      | (Inr g', w') \<Rightarrow> autogen_loop u eng loader st verbose ys g' w')"
proof (induction xs arbitrary: g w)
  case Nil
  show ?case by simp
next
  case (Cons x xs)
  show ?case
  proof (cases "loader x")
    case (Inl e)
    then show ?thesis by simp
  next
    case (Inr m)
    show ?thesis
    proof (cases "mod_attrs m ''TEMPLATE''")
      case None
      with Inr show ?thesis by (simp add: Cons.IH)
    next
      case (Some t)
      show ?thesis
      proof (cases "extract_template_vars eng t")
        case (Inl e)
        with Inr Some show ?thesis by simp
      next
        case vars: (Inr vars)
        obtain r w1 where s: "write_model_stub u st m ''TEMPLATE'' vars w = (r, w1)"
          by (cases "write_model_stub u st m ''TEMPLATE'' vars w")
        show ?thesis
        proof (cases r)
          case (Inl e)
          with Inr Some vars s show ?thesis by simp
        next
          case mp: (Inr mp)
          show ?thesis
          proof (cases verbose)
            case False
            with Inr Some vars s mp Cons.IH show ?thesis by simp
          next
            case True
            show ?thesis
            proof (cases "relative_to mp (project_root st)")
              case (Inl e)
              with Inr Some vars s mp True show ?thesis by simp
            next
              case rel: (Inr rel)
              with Inr Some vars s mp True Cons.IH show ?thesis by simp
            qed
          qed
        qed
      qed
    qed
  qed
qed

lemma autogen_loop_generated:
  "autogen_loop u eng loader st verbose ps g w = (Inr generated, w') \<Longrightarrow>
     generated = g @ map (stub_path st) (template_modules loader ps)"
proof (induction ps arbitrary: g w)
  case Nil
  then show ?case by (simp add: template_modules_def)
next
  case (Cons p ps)
  from Cons.prems obtain m where m: "loader p = Inr m"
    by (cases "loader p") auto
  show ?case
  proof (cases "mod_attrs m ''TEMPLATE''")
    case None
    with Cons.prems m have "autogen_loop u eng loader st verbose ps g w = (Inr generated, w')"
      by simp
    from Cons.IH [OF this] None m show ?thesis by (simp add: template_modules_def)
  next
    case (Some t)
    from Cons.prems m Some obtain vars where v: "extract_template_vars eng t = Inr vars"
      by (cases "extract_template_vars eng t") auto
    from Cons.prems m Some v obtain mp w1
      where s: "write_model_stub u st m ''TEMPLATE'' vars w = (Inr mp, w1)"
      by (cases "write_model_stub u st m ''TEMPLATE'' vars w"; cases "fst (write_model_stub u st m ''TEMPLATE'' vars w)") auto
    then have mp: "mp = stub_path st m" by (rule write_model_stub_path)
    from Cons.prems m Some v s obtain w2
      where "autogen_loop u eng loader st verbose ps (g @ [mp]) w2 = (Inr generated, w')"
      by (auto split: if_splits sum.splits)
    from Cons.IH [OF this] m Some mp show ?thesis by (simp add: template_modules_def)
  qed
qed

lemma autogen_loop_quiet:
  "autogen_loop u eng loader st False ps g w = (r, w') \<Longrightarrow> stdout w' = stdout w"
proof (induction ps arbitrary: g w)
  case Nil
  then show ?case by simp
next
  case (Cons p ps)
  show ?case
  proof (cases "loader p")
    case (Inl e)
    with Cons.prems show ?thesis by simp
  next
    case (Inr m)
    show ?thesis
    proof (cases "mod_attrs m ''TEMPLATE''")
      case None
      with Cons.prems Inr Cons.IH show ?thesis by simp
    next
      case (Some t)
      show ?thesis
      proof (cases "extract_template_vars eng t")
        case (Inl e)
        with Cons.prems Inr Some show ?thesis by simp
      next
        case vars: (Inr vars)
        obtain x w1 where s: "write_model_stub u st m ''TEMPLATE'' vars w = (x, w1)"
          by (cases "write_model_stub u st m ''TEMPLATE'' vars w")
        then have o: "stdout w1 = stdout w"
          using write_model_stub_dirs [of u st m "''TEMPLATE''" vars w] by simp
        show ?thesis
        proof (cases x)
          case (Inl e)
          with Cons.prems Inr Some vars s o show ?thesis by simp
        next
          case mp: (Inr mp)
          with Cons.prems Inr Some vars s
          have "autogen_loop u eng loader st False ps (g @ [mp]) w1 = (r, w')" by simp
          from Cons.IH [OF this] o show ?thesis by simp
        qed
      qed
    qed
  qed
qed

lemma ex_discover:
  "discover_template_modules ex_settings ex_project
     = [[''.templateer'', ''greeting.py''], [''.templateer'', ''util.py''],
        [''.templateer'', ''hello.py'']]"
  by code_simp

lemma ex_discover_broken:
  "discover_template_modules ex_settings ex_broken_project
     = [[''.templateer'', ''greeting.py''], [''.templateer'', ''broken.py''],
        [''.templateer'', ''hello.py'']]"
  by code_simp

lemma ex_autogen_fst:
  "fst (autogen_models ex_unicode ref_engine ex_loader ex_settings False ex_project)
     = Inr [[''templateer'', ''models'', ''greeting_model.py''],
            [''templateer'', ''models'', ''hello_model.py'']]"
  by code_simp

lemma ex_autogen_edit_kept:
  "read_file (snd (autogen_models ex_unicode ref_engine ex_loader ex_settings False ex_project))
     [''templateer'', ''models'', ''greeting_model.py''] = Some ''# my edit''"
  by code_simp

lemma ex_autogen_broken_fst:
  "fst (autogen_models ex_unicode ref_engine ex_loader ex_settings False ex_broken_project)
     = Inl TemplateSyntaxError"
  by code_simp

lemma ex_autogen_broken_snd:
  "\<not> path_exists (snd (autogen_models ex_unicode ref_engine ex_loader ex_settings False ex_broken_project))
     [''templateer'', ''models'', ''hello_model.py'']"
  by code_simp

lemma ex_template_modules:
  "template_modules ex_loader (discover_template_modules ex_settings ex_project)
    = [ex_module ''greeting'' ''Hello {{ name }}!'', ex_module ''hello'' ''hello world'']"
  unfolding ex_discover by (simp add: template_modules_def ex_loader_def ex_module_def)

text \<open>
  C5, as the code has it. The loop of \<open>autogen_models\<close> has no exception handler: when
  a template file fails to load, or its template text does not parse, the pass stops at
  that file with that error. The world is then as the files before it left it (their
  stubs are written), and nothing that comes after the failing file is processed.
\<close>

theorem autogen_stops_at_failure:
  "(autogen_loop u eng loader st verbose pre g w = (Inr g', w')
      \<and> (loader bad = Inl e
           \<or> (\<exists>m t. loader bad = Inr m \<and> mod_attrs m ''TEMPLATE'' = Some t
                 \<and> extract_template_vars eng t = Inl e))
      \<longrightarrow> autogen_loop u eng loader st verbose (pre @ bad # post) g w = (Inl e, w'))
   \<and> (autogen_loop u eng loader st verbose pre g w = (Inl e, w')
      \<longrightarrow> autogen_loop u eng loader st verbose (pre @ post) g w = (Inl e, w'))"
proof (intro conjI impI)
  assume a: "autogen_loop u eng loader st verbose pre g w = (Inr g', w')
      \<and> (loader bad = Inl e
           \<or> (\<exists>m t. loader bad = Inr m \<and> mod_attrs m ''TEMPLATE'' = Some t
                 \<and> extract_template_vars eng t = Inl e))"
  then have "autogen_loop u eng loader st verbose (bad # post) g' w' = (Inl e, w')"
    by auto
  with a show "autogen_loop u eng loader st verbose (pre @ bad # post) g w = (Inl e, w')"
    by (simp add: autogen_loop_append)
next
  assume "autogen_loop u eng loader st verbose pre g w = (Inl e, w')"
  then show "autogen_loop u eng loader st verbose (pre @ post) g w = (Inl e, w')"
    by (simp add: autogen_loop_append)
qed

lemma ex_extract_greeting:
  "extract_template_vars ref_engine ''Hello {{ name }}!'' = Inr {''name''}"
  by (simp add: extract_template_vars_def ref_engine_def ex_parse ref_undeclared_def)

lemma ex_extract_broken:
  "extract_template_vars ref_engine ''Hello {{ name'' = Inl TemplateSyntaxError"
  by code_simp

lemma ex_autogen_first:
  "autogen_loop ex_unicode ref_engine ex_loader ex_settings False [[''.templateer'', ''greeting.py'']] []
     ex_broken_project
   = (Inr [[''templateer'', ''models'', ''greeting_model.py'']],
      ex_broken_project\<lparr>files :=
        AList.update [''templateer'', ''models'', ''greeting_model.py'']
          (stub_text ex_unicode (ex_module ''greeting'' ''Hello {{ name }}!'') ''TEMPLATE'' {''name''})
          (files ex_broken_project)\<rparr>)"
proof -
  let ?m = "ex_module ''greeting'' ''Hello {{ name }}!''"
  have absent: "\<not> path_exists ex_broken_project (stub_path ex_settings ?m)"
    unfolding ex_stub_path
    by (simp add: path_exists_def is_file_def is_dir_def read_file_def ex_broken_project_def)
  have dir: "is_dir ex_broken_project (parent (stub_path ex_settings ?m))"
    unfolding ex_stub_path by (simp add: is_dir_def parent_def ex_broken_project_def)
  note n = write_model_stub_new [OF absent dir, of ex_unicode "''TEMPLATE''" "{''name''}"]
  have l: "ex_loader [''.templateer'', ''greeting.py''] = Inr ?m"
    by (simp add: ex_loader_def)
  have t: "mod_attrs ?m ''TEMPLATE'' = Some ''Hello {{ name }}!''"
    by (simp add: ex_module_def)
  show ?thesis
    by (simp add: l t ex_extract_greeting n ex_stub_path)
qed

theorem autogen_stops_at_failure_witness:
  "autogen_loop ex_unicode ref_engine ex_loader ex_settings False [[''.templateer'', ''greeting.py'']] []
     ex_broken_project
   = (Inr [[''templateer'', ''models'', ''greeting_model.py'']],
      ex_broken_project\<lparr>files :=
        AList.update [''templateer'', ''models'', ''greeting_model.py'']
          (stub_text ex_unicode (ex_module ''greeting'' ''Hello {{ name }}!'') ''TEMPLATE'' {''name''})
          (files ex_broken_project)\<rparr>)
   \<and> ex_loader [''.templateer'', ''broken.py''] = Inr (ex_module ''broken'' ''Hello {{ name'')
   \<and> mod_attrs (ex_module ''broken'' ''Hello {{ name'') ''TEMPLATE'' = Some ''Hello {{ name''
   \<and> extract_template_vars ref_engine ''Hello {{ name'' = Inl TemplateSyntaxError
   \<and> autogen_loop ex_unicode ref_engine ex_loader ex_settings False
        ([[''.templateer'', ''greeting.py'']] @ [''.templateer'', ''broken.py'']
           # [[''.templateer'', ''hello.py'']]) [] ex_broken_project
      = (Inl TemplateSyntaxError,
         ex_broken_project\<lparr>files :=
           AList.update [''templateer'', ''models'', ''greeting_model.py'']
             (stub_text ex_unicode (ex_module ''greeting'' ''Hello {{ name }}!'') ''TEMPLATE'' {''name''})
             (files ex_broken_project)\<rparr>)
   \<and> autogen_loop ex_unicode ref_engine ex_loader ex_settings False
        (([[''.templateer'', ''greeting.py'']] @ [''.templateer'', ''broken.py''] # [])
           @ [[''.templateer'', ''hello.py'']]) [] ex_broken_project
      = (Inl TemplateSyntaxError,
         ex_broken_project\<lparr>files :=
           AList.update [''templateer'', ''models'', ''greeting_model.py'']
             (stub_text ex_unicode (ex_module ''greeting'' ''Hello {{ name }}!'') ''TEMPLATE'' {''name''})
             (files ex_broken_project)\<rparr>)"
proof -
  let ?w' = "ex_broken_project\<lparr>files :=
        AList.update [''templateer'', ''models'', ''greeting_model.py'']
          (stub_text ex_unicode (ex_module ''greeting'' ''Hello {{ name }}!'') ''TEMPLATE'' {''name''})
          (files ex_broken_project)\<rparr>"
  have l: "ex_loader [''.templateer'', ''broken.py''] = Inr (ex_module ''broken'' ''Hello {{ name'')"
    by (simp add: ex_loader_def)
  have a: "mod_attrs (ex_module ''broken'' ''Hello {{ name'') ''TEMPLATE'' = Some ''Hello {{ name''"
    by (simp add: ex_module_def)
  have bad: "ex_loader [''.templateer'', ''broken.py''] = Inl TemplateSyntaxError
    \<or> (\<exists>m t. ex_loader [''.templateer'', ''broken.py''] = Inr m
          \<and> mod_attrs m ''TEMPLATE'' = Some t
          \<and> extract_template_vars ref_engine t = Inl TemplateSyntaxError)"
    using l a ex_extract_broken by blast
  note t1 = autogen_stops_at_failure [of ex_unicode ref_engine ex_loader ex_settings False
      "[[''.templateer'', ''greeting.py'']]" "[]" ex_broken_project
      "[[''templateer'', ''models'', ''greeting_model.py'']]" ?w'
      "[''.templateer'', ''broken.py'']" TemplateSyntaxError "[[''.templateer'', ''hello.py'']]"]
  note c1 = t1 [THEN conjunct1, THEN mp, OF conjI, OF ex_autogen_first bad]
  note t0 = autogen_stops_at_failure [of ex_unicode ref_engine ex_loader ex_settings False
      "[[''.templateer'', ''greeting.py'']]" "[]" ex_broken_project
      "[[''templateer'', ''models'', ''greeting_model.py'']]" ?w'
      "[''.templateer'', ''broken.py'']" TemplateSyntaxError "[]"]
  note c0 = t0 [THEN conjunct1, THEN mp, OF conjI, OF ex_autogen_first bad]
  note t2 = autogen_stops_at_failure [of ex_unicode ref_engine ex_loader ex_settings False
      "[[''.templateer'', ''greeting.py'']] @ [''.templateer'', ''broken.py''] # []" "[]"
      ex_broken_project _ ?w' _ TemplateSyntaxError "[[''.templateer'', ''hello.py'']]"]
  note c2 = t2 [THEN conjunct2, THEN mp, OF c0]
  show ?thesis by (intro conjI ex_autogen_first l a ex_extract_broken c1 c2)
qed

text \<open>
  C5 as stated fails: of three template files the second does not parse; the pass
  raises TemplateSyntaxError and the stub of the third is never written.
\<close>

theorem autogen_failure_isolation_counterexample:
  "discover_template_modules ex_settings ex_broken_project
     = [[''.templateer'', ''greeting.py''], [''.templateer'', ''broken.py''],
        [''.templateer'', ''hello.py'']]
   \<and> ex_loader [''.templateer'', ''hello.py''] = Inr (ex_module ''hello'' ''hello world'')
   \<and> extract_template_vars ref_engine ''hello world'' = Inr {}
   \<and> fst (autogen_models ex_unicode ref_engine ex_loader ex_settings False ex_broken_project)
      = Inl TemplateSyntaxError
   \<and> \<not> path_exists
        (snd (autogen_models ex_unicode ref_engine ex_loader ex_settings False ex_broken_project))
        [''templateer'', ''models'', ''hello_model.py'']"
proof (intro conjI)
  show "ex_loader [''.templateer'', ''hello.py''] = Inr (ex_module ''hello'' ''hello world'')"
    by (simp add: ex_loader_def)
  show "extract_template_vars ref_engine ''hello world'' = Inr {}"
    by code_simp
qed (rule ex_discover_broken ex_autogen_broken_fst ex_autogen_broken_snd)+

text \<open>
  C10. When the discovery pass returns, its list has one stub path for every discovered
  module that loads with a \<^verbatim>\<open>TEMPLATE\<close> constant, in discovery order, whether the stub
  was written now or was there before; a module without the constant adds nothing. The
  \<^verbatim>\<open>autogen\<close> command prints the length of that list.
\<close>

theorem autogen_reports_template_modules:
  "(autogen_models u eng loader st verbose w = (Inr generated, w')
      \<longrightarrow> generated
            = map (stub_path st) (template_modules loader (discover_template_modules st w))
        \<and> length generated
            = length (template_modules loader (discover_template_modules st w)))
   \<and> (cli_autogen u eng loader st False w = (Inr (), w'')
      \<longrightarrow> stdout w''
            = stdout w @ [GeneratedCount
                (length (template_modules loader (discover_template_modules st w)))])"
proof (intro conjI impI)
  assume "autogen_models u eng loader st verbose w = (Inr generated, w')"
  then show g: "generated
      = map (stub_path st) (template_modules loader (discover_template_modules st w))"
    using autogen_loop_generated [of u eng loader st verbose _ "[]" w generated w']
    by (simp add: autogen_models_def)
  then show "length generated
      = length (template_modules loader (discover_template_modules st w))"
    by simp
next
  assume c: "cli_autogen u eng loader st False w = (Inr (), w'')"
  obtain r w1 where a: "autogen_models u eng loader st False w = (r, w1)"
    by (cases "autogen_models u eng loader st False w")
  with c obtain generated where r: "r = Inr generated"
    by (cases r) (auto simp: cli_autogen_def)
  from a have q: "stdout w1 = stdout w"
    unfolding autogen_models_def by (rule autogen_loop_quiet)
  from a r have "generated
      = map (stub_path st) (template_modules loader (discover_template_modules st w))"
    using autogen_loop_generated [of u eng loader st False _ "[]" w generated w1]
    by (simp add: autogen_models_def)
  then have "length generated
      = length (template_modules loader (discover_template_modules st w))"
    by simp
  with c a r q show "stdout w''
      = stdout w @ [GeneratedCount
          (length (template_modules loader (discover_template_modules st w)))]"
    by (auto simp: cli_autogen_def emit_def)
qed

theorem autogen_reports_template_modules_witness:
  "autogen_models ex_unicode ref_engine ex_loader ex_settings False ex_project
     = (Inr [[''templateer'', ''models'', ''greeting_model.py''],
             [''templateer'', ''models'', ''hello_model.py'']],
        snd (autogen_models ex_unicode ref_engine ex_loader ex_settings False ex_project))
   \<and> template_modules ex_loader (discover_template_modules ex_settings ex_project)
      = [ex_module ''greeting'' ''Hello {{ name }}!'', ex_module ''hello'' ''hello world'']
   \<and> [[''templateer'', ''models'', ''greeting_model.py''],
       [''templateer'', ''models'', ''hello_model.py'']]
      = map (stub_path ex_settings)
          (template_modules ex_loader (discover_template_modules ex_settings ex_project))
   \<and> read_file ex_project [''templateer'', ''models'', ''greeting_model.py''] = Some ''# my edit''
   \<and> read_file (snd (autogen_models ex_unicode ref_engine ex_loader ex_settings False ex_project))
        [''templateer'', ''models'', ''greeting_model.py''] = Some ''# my edit''
   \<and> cli_autogen ex_unicode ref_engine ex_loader ex_settings False ex_project
      = (Inr (), snd (cli_autogen ex_unicode ref_engine ex_loader ex_settings False ex_project))
   \<and> stdout (snd (cli_autogen ex_unicode ref_engine ex_loader ex_settings False ex_project))
      = stdout ex_project @ [GeneratedCount
          (length (template_modules ex_loader (discover_template_modules ex_settings ex_project)))]"
proof -
  have h1: "autogen_models ex_unicode ref_engine ex_loader ex_settings False ex_project
     = (Inr [[''templateer'', ''models'', ''greeting_model.py''],
             [''templateer'', ''models'', ''hello_model.py'']],
        snd (autogen_models ex_unicode ref_engine ex_loader ex_settings False ex_project))"
    using ex_autogen_fst by (simp add: prod_eq_iff)
  have h2: "cli_autogen ex_unicode ref_engine ex_loader ex_settings False ex_project
      = (Inr (), snd (cli_autogen ex_unicode ref_engine ex_loader ex_settings False ex_project))"
    by (subst (1 2) cli_autogen_def, subst (1 2) h1) simp
  have old: "read_file ex_project [''templateer'', ''models'', ''greeting_model.py'']
      = Some ''# my edit''"
    by (simp add: read_file_def ex_project_def)
  note t = autogen_reports_template_modules [of ex_unicode ref_engine ex_loader ex_settings False ex_project
      _ "snd (autogen_models ex_unicode ref_engine ex_loader ex_settings False ex_project)"
      "snd (cli_autogen ex_unicode ref_engine ex_loader ex_settings False ex_project)"]
  note c1 = t [THEN conjunct1, THEN mp, OF h1, THEN conjunct1]
  note c2 = t [THEN conjunct2, THEN mp, OF h2]
  show ?thesis by (intro conjI h1 ex_template_modules c1 old ex_autogen_edit_kept h2 c2)
qed

section \<open>Properties of the generation pass\<close>

lemma find_template_class_eligible:
  "find_template_class ns = (case eligible_classes ns of [] \<Rightarrow> Inl StopIteration | c # cs \<Rightarrow> Inr c)"
  by (induction ns rule: find_template_class.induct) auto

lemma eligible_classes_first:
  "eligible_classes ns = c # cs \<Longrightarrow> pc_is_template_model c \<and> \<not> pc_is_base c"
  by (induction ns rule: eligible_classes.induct) (auto split: if_splits)

text \<open>
  C6, as the \<^verbatim>\<open>generate\<close> command of cli.py has it. The class of a stub module is found
  with \<^verbatim>\<open>next\<close>: it is the first eligible class of the namespace, and the other
  candidates play no part. With no eligible class \<^verbatim>\<open>next\<close> raises StopIteration inside
  the \<^verbatim>\<open>try\<close> of the stub, which is then not counted as rendered; a line is printed in
  verbose mode only.
\<close>

theorem first_eligible_class_is_used:
  "find_template_class ns = (case eligible_classes ns of [] \<Rightarrow> Inl StopIteration | c # cs \<Rightarrow> Inr c)
   \<and> (importer (''templateer.models.'' @ path_stem stub) = Inr ns \<and> eligible_classes ns = c # cs
      \<longrightarrow> render_stub u eng mods importer st verbose stub (n, w)
          = render_stub u eng mods (\<lambda>name. Inr [(pc_name c, PyClass c)]) st verbose stub (n, w))
   \<and> (importer (''templateer.models.'' @ path_stem stub) = Inr ns \<and> eligible_classes ns = []
      \<longrightarrow> render_stub u eng mods importer st verbose stub (n, w)
          = (n, if verbose then emit (CouldNotRender (path_stem stub) StopIteration) w else w))"
proof (intro conjI impI)
  show "find_template_class ns
      = (case eligible_classes ns of [] \<Rightarrow> Inl StopIteration | c # cs \<Rightarrow> Inr c)"
    by (rule find_template_class_eligible)
next
  assume a: "importer (''templateer.models.'' @ path_stem stub) = Inr ns
    \<and> eligible_classes ns = c # cs"
  then have f: "find_template_class ns = Inr c"
    by (simp add: find_template_class_eligible)
  from a have "find_template_class [(pc_name c, PyClass c)] = Inr c"
    using eligible_classes_first [of ns c cs] by simp
  with a f show "render_stub u eng mods importer st verbose stub (n, w)
      = render_stub u eng mods (\<lambda>name. Inr [(pc_name c, PyClass c)]) st verbose stub (n, w)"
    by (simp add: render_stub_def)
next
  assume a: "importer (''templateer.models.'' @ path_stem stub) = Inr ns
    \<and> eligible_classes ns = []"
  then have "find_template_class ns = Inl StopIteration"
    by (simp add: find_template_class_eligible)
  with a show "render_stub u eng mods importer st verbose stub (n, w)
      = (n, if verbose then emit (CouldNotRender (path_stem stub) StopIteration) w else w)"
    by (simp add: render_stub_def could_not_render_def)
qed

lemma ex_eligible_two: "eligible_classes ex_two_classes = [ex_greeting_class, ex_hello_class]"
  by (simp add: ex_two_classes_def ex_base_class_def ex_greeting_class_def ex_hello_class_def)

lemma ex_eligible_none: "eligible_classes ex_no_class = []"
  by (simp add: ex_no_class_def ex_base_class_def)

lemma ex_import_greeting:
  "ex_importer (''templateer.models.'' @ path_stem [''templateer'', ''models'', ''greeting_model.py''])
     = Inr ex_two_classes"
  by (simp add: ex_importer_def path_stem_def name_stem_def)

lemma ex_import_empty:
  "ex_importer (''templateer.models.'' @ path_stem [''templateer'', ''models'', ''empty_model.py''])
     = Inr ex_no_class"
  by (simp add: ex_importer_def path_stem_def name_stem_def)

lemma ex_stem: "path_stem [''templateer'', ''models'', ''greeting_model.py''] = ''greeting_model''"
  by (simp add: path_stem_def name_stem_def)

lemma ex_import_name: "ex_importer ''templateer.models.greeting_model'' = Inr ex_two_classes"
  by (simp add: ex_importer_def)

lemma ex_render_stub:
  "render_stub ex_unicode ref_engine ex_modules ex_importer ex_settings False
     [''templateer'', ''models'', ''greeting_model.py''] (0, ex_world)
   = (1, ex_world\<lparr>files := AList.update [''TEMPLATE_DIR'', ''greeting.py''] ''Hello Ada!''
           (files ex_world)\<rparr>)"
proof -
  let ?i = "ex_instance [''name'' \<mapsto> ''Ada'']"
  have f: "find_template_class ex_two_classes = Inr ex_greeting_class"
    by (simp add: find_template_class_eligible ex_eligible_two)
  have n: "pc_new ex_greeting_class = Inr ?i" by (simp add: ex_greeting_class_def)
  have h1: "\<not> is_dir ex_world (output_path ex_unicode ex_settings ?i)"
    unfolding ex_output_path by (simp add: is_dir_def ex_world_def)
  have h2: "\<not> list_ex (is_file ex_world) (ancestors (output_path ex_unicode ex_settings ?i))"
    unfolding ex_output_path
    by (simp add: ancestors_def upt_rec is_file_def read_file_def ex_world_def)
  have m: "mkdir_parents (parent (output_path ex_unicode ex_settings ?i)) ex_world = Inr ex_world"
    unfolding ex_output_path by (simp add: mkdir_parents_def parent_def is_dir_def ex_world_def)
  from generate_write [OF ex_render h1 h2] m
  have g: "generate ex_unicode ref_engine ex_modules ex_settings ?i True ex_world
      = (Inr ''Hello Ada!'',
         ex_world\<lparr>files := AList.update [''TEMPLATE_DIR'', ''greeting.py''] ''Hello Ada!''
           (files ex_world)\<rparr>)"
    by (simp add: ex_output_path)
  show ?thesis
    by (simp add: render_stub_def ex_stem ex_import_name f n g)
qed

theorem first_eligible_class_is_used_witness:
  "ex_importer (''templateer.models.'' @ path_stem [''templateer'', ''models'', ''greeting_model.py''])
     = Inr ex_two_classes
   \<and> eligible_classes ex_two_classes = ex_greeting_class # [ex_hello_class]
   \<and> find_template_class ex_two_classes
      = (case eligible_classes ex_two_classes of [] \<Rightarrow> Inl StopIteration | c # cs \<Rightarrow> Inr c)
   \<and> render_stub ex_unicode ref_engine ex_modules ex_importer ex_settings False
        [''templateer'', ''models'', ''greeting_model.py''] (0, ex_world)
      = render_stub ex_unicode ref_engine ex_modules
          (\<lambda>name. Inr [(pc_name ex_greeting_class, PyClass ex_greeting_class)]) ex_settings False
          [''templateer'', ''models'', ''greeting_model.py''] (0, ex_world)
   \<and> ex_importer (''templateer.models.'' @ path_stem [''templateer'', ''models'', ''empty_model.py''])
      = Inr ex_no_class
   \<and> eligible_classes ex_no_class = []
   \<and> render_stub ex_unicode ref_engine ex_modules ex_importer ex_settings True
        [''templateer'', ''models'', ''empty_model.py''] (0, ex_world)
      = (0, emit (CouldNotRender (path_stem [''templateer'', ''models'', ''empty_model.py''])
               StopIteration) ex_world)"
proof -
  let ?g = "[''templateer'', ''models'', ''greeting_model.py'']"
  let ?e = "[''templateer'', ''models'', ''empty_model.py'']"
  have e2: "eligible_classes ex_two_classes = ex_greeting_class # [ex_hello_class]"
    by (rule ex_eligible_two)
  note t1 = first_eligible_class_is_used [of ex_two_classes ex_importer ?g ex_greeting_class
      "[ex_hello_class]" ex_unicode ref_engine ex_modules ex_settings False 0 ex_world]
  note t2 = first_eligible_class_is_used [of ex_no_class ex_importer ?e ex_greeting_class
      "[ex_hello_class]" ex_unicode ref_engine ex_modules ex_settings True 0 ex_world]
  note c1 = t1 [THEN conjunct1]
  note c2 = t1 [THEN conjunct2, THEN conjunct1, THEN mp, OF conjI, OF ex_import_greeting e2]
  note c3 = t2 [THEN conjunct2, THEN conjunct2, THEN mp, OF conjI,
      OF ex_import_empty ex_eligible_none, unfolded if_True]
  show ?thesis
    by (intro conjI ex_import_greeting e2 c1 c2 ex_import_empty ex_eligible_none c3)
qed

text \<open>
  C6 as stated fails: a stub module with two eligible classes is not refused. The first
  class is instantiated and rendered, and the stub counts as rendered.
\<close>

theorem two_binding_classes_counterexample:
  "eligible_classes ex_two_classes = [ex_greeting_class, ex_hello_class]
   \<and> find_template_class ex_two_classes = Inr ex_greeting_class
   \<and> render_stub ex_unicode ref_engine ex_modules ex_importer ex_settings False
        [''templateer'', ''models'', ''greeting_model.py''] (0, ex_world)
      = (1, ex_world\<lparr>files := AList.update [''TEMPLATE_DIR'', ''greeting.py''] ''Hello Ada!''
              (files ex_world)\<rparr>)"
proof (intro conjI)
  show "find_template_class ex_two_classes = Inr ex_greeting_class"
    by (simp add: find_template_class_eligible ex_eligible_two)
qed (rule ex_eligible_two ex_render_stub)+


end
